theory Spec2Isabelle
  imports Complex_Main "HOL-Library.AList"
begin

section \<open>JavaScript values used by the request builder and the response validator\<close>

text \<open>
  Strings are lists of code units; the model covers the code units below 256.
  \<open>String.prototype.trim\<close> removes the white space and line terminator code units
  at both ends; below 256 these are TAB, LF, VT, FF, CR, SPACE and NBSP.
\<close>

definition isWhiteSpace :: "char \<Rightarrow> bool" where
  "isWhiteSpace c = (of_char c \<in> set [9, 10, 11, 12, 13, 32, 160 :: nat])"

definition trim :: "string \<Rightarrow> string" where
  "trim s = rev (dropWhile isWhiteSpace (rev (dropWhile isWhiteSpace s)))"

definition startsWith :: "string \<Rightarrow> string \<Rightarrow> bool" where
  "startsWith s p = (take (length p) s = p)"

definition endsWith :: "string \<Rightarrow> string \<Rightarrow> bool" where
  "endsWith s p = (length p \<le> length s \<and> drop (length s - length p) s = p)"

text \<open>\<open>Array.prototype.join\<close> on an array of strings.\<close>

fun join :: "string \<Rightarrow> string list \<Rightarrow> string" where
  "join sep [] = []"
| "join sep [x] = x"
| "join sep (x # y # ys) = x @ sep @ join sep (y # ys)"

text \<open>
  Decimal rendering of an integer, as a template literal renders an integral number of
  magnitude below \<open>10^21\<close>.
\<close>

definition digitChar :: "nat \<Rightarrow> char" where
  "digitChar n = ''0123456789'' ! n"

fun digits :: "nat \<Rightarrow> string" where
  "digits n = (if n < 10 then [digitChar n] else digits (n div 10) @ [digitChar (n mod 10)])"

definition show_int :: "int \<Rightarrow> string" where
  "show_int i = (if i < 0 then CHR ''-'' # digits (nat (- i)) else digits (nat i))"

text \<open>
  A property name is an array index when it is the canonical decimal form of an integer
  in the range \<open>0 .. 2^32 - 2\<close>.
\<close>

definition isDigit :: "char \<Rightarrow> bool" where
  "isDigit c = (48 \<le> (of_char c :: nat) \<and> (of_char c :: nat) \<le> 57)"

definition indexValue :: "string \<Rightarrow> int" where
  "indexValue s = foldl (\<lambda>acc c. 10 * acc + (of_char c - 48)) 0 s"

definition isArrayIndex :: "string \<Rightarrow> bool" where
  "isArrayIndex s =
     (s \<noteq> [] \<and> list_all isDigit s \<and> (s = ''0'' \<or> hd s \<noteq> CHR ''0'') \<and> indexValue s < 4294967295)"

text \<open>
  A plain object (\<open>Record<string, T>\<close>) is the list of its own properties in the order they
  were created.  The engine enumerates (\<open>Object.entries\<close>, \<open>Object.keys\<close>, spread) the
  array-index names first, in ascending numeric order, and then the other names in creation
  order.
\<close>

type_synonym 'a jsrecord = "(string \<times> 'a) list"

definition entries :: "'a jsrecord \<Rightarrow> (string \<times> 'a) list" where
  "entries r =
     sort_key (\<lambda>p. indexValue (fst p)) (filter (\<lambda>p. isArrayIndex (fst p)) r)
       @ filter (\<lambda>p. \<not> isArrayIndex (fst p)) r"

definition Object_keys :: "'a jsrecord \<Rightarrow> string list" where
  "Object_keys r = map fst (entries r)"

text \<open>
  Numbers: the comparisons of the source only need the order of the values, so a finite
  double is represented by the real number it denotes.  Every comparison with \<open>NaN\<close> is false.
\<close>

datatype number = NaN | NegInfinity | Finite real | PosInfinity

fun num_less :: "number \<Rightarrow> number \<Rightarrow> bool" where
  "num_less NaN b = False"
| "num_less a NaN = False"
| "num_less NegInfinity NegInfinity = False"
| "num_less NegInfinity b = True"
| "num_less (Finite x) NegInfinity = False"
| "num_less (Finite x) (Finite y) = (x < y)"
| "num_less (Finite x) PosInfinity = True"
| "num_less PosInfinity b = False"

definition num_le :: "number \<Rightarrow> number \<Rightarrow> bool" where
  "num_le a b = (a \<noteq> NaN \<and> b \<noteq> NaN \<and> \<not> num_less b a)"

text \<open>The values a response body can be: what \<open>JSON.parse\<close> yields, and \<open>undefined\<close>.\<close>

datatype jsval =
    JUndefined
  | JNull
  | JBool bool
  | JNum number
  | JStr string
  | JArr "jsval list"
  | JObj "(string \<times> jsval) list"

fun typeof :: "jsval \<Rightarrow> string" where
  "typeof JUndefined = ''undefined''"
| "typeof JNull = ''object''"
| "typeof (JBool b) = ''boolean''"
| "typeof (JNum n) = ''number''"
| "typeof (JStr s) = ''string''"
| "typeof (JArr xs) = ''object''"
| "typeof (JObj kvs) = ''object''"

fun Array_isArray :: "jsval \<Rightarrow> bool" where
  "Array_isArray (JArr xs) = True"
| "Array_isArray v = False"

fun isObject :: "jsval \<Rightarrow> bool" where
  "isObject (JArr xs) = True"
| "isObject (JObj kvs) = True"
| "isObject v = False"

text \<open>
  A value that may be \<open>null\<close> or \<open>undefined\<close> at run time, and the string a template
  literal, \<open>encodeURIComponent\<close> or \<open>JSON.parse\<close> makes of it.
\<close>

datatype 'a nullable = Undefined | Null | Value 'a

fun toString :: "string nullable \<Rightarrow> string" where
  "toString Undefined = ''undefined''"
| "toString Null = ''null''"
| "toString (Value s) = s"

text \<open>Own enumerable property names of an object or an array (\<open>Object.keys\<close>).\<close>

fun ownKeys :: "jsval \<Rightarrow> string list" where
  "ownKeys (JObj kvs) = Object_keys kvs"
| "ownKeys (JArr xs) = map (\<lambda>i. digits i) [0 ..< length xs]"
| "ownKeys v = []"

text \<open>
  What the host supplies: whether \<open>new URL(s)\<close> accepts a string, and the property names
  an object or an array inherits from its prototype chain, each with the \<open>typeof\<close> of the
  inherited value.
\<close>

record host =
  urlParses :: "string \<Rightarrow> bool"
  objectProto :: "(string \<times> string) list"
  arrayProto :: "(string \<times> string) list"

datatype error = Error string | TypeError | SyntaxError

text \<open>
  The \<open>in\<close> operator: it throws a \<open>TypeError\<close> when its right operand is not an object;
  on an object it looks at the own properties and then along the prototype chain.
\<close>

fun hasProperty :: "host \<Rightarrow> jsval \<Rightarrow> string \<Rightarrow> bool" where
  "hasProperty hst (JObj kvs) k =
     (k \<in> set (map fst kvs) \<or> k \<in> set (map fst (objectProto hst)))"
| "hasProperty hst (JArr xs) k =
     ((isArrayIndex k \<and> indexValue k < int (length xs)) \<or> k = ''length''
       \<or> k \<in> set (map fst (arrayProto hst)) \<or> k \<in> set (map fst (objectProto hst)))"
| "hasProperty hst v k = False"

definition js_in :: "host \<Rightarrow> string \<Rightarrow> jsval \<Rightarrow> error + bool" where
  "js_in hst k v = (if isObject v then Inr (hasProperty hst v k) else Inl TypeError)"

text \<open>The expression \<open>Array.isArray(v) ? "array" : typeof v\<close>.\<close>

definition valueType :: "jsval \<Rightarrow> string" where
  "valueType v = (if Array_isArray v then ''array'' else typeof v)"

text \<open>The same expression applied to the property \<open>response[field]\<close> of an object.\<close>

definition inheritedType :: "(string \<times> string) list \<Rightarrow> string \<Rightarrow> string" where
  "inheritedType proto k = (case map_of proto k of Some t \<Rightarrow> t | None \<Rightarrow> ''undefined'')"

fun propertyType :: "host \<Rightarrow> jsval \<Rightarrow> string \<Rightarrow> string" where
  "propertyType hst (JObj kvs) k =
     (case map_of kvs k of Some v \<Rightarrow> valueType v
      | None \<Rightarrow> inheritedType (objectProto hst) k)"
| "propertyType hst (JArr xs) k =
     (if isArrayIndex k \<and> indexValue k < int (length xs) then valueType (xs ! nat (indexValue k))
      else if k = ''length'' then ''number''
      else inheritedType (arrayProto hst @ objectProto hst) k)"
| "propertyType hst v k = ''undefined''"


section \<open>Constants (src/constants/index.ts)\<close>

definition SUCCESS_MIN :: int where "SUCCESS_MIN = 200"
definition SUCCESS_MAX :: int where "SUCCESS_MAX = 299"
definition CLIENT_ERROR_MIN :: int where "CLIENT_ERROR_MIN = 400"
definition CLIENT_ERROR_MAX :: int where "CLIENT_ERROR_MAX = 499"
definition SERVER_ERROR_MIN :: int where "SERVER_ERROR_MIN = 500"
definition SERVER_ERROR_MAX :: int where "SERVER_ERROR_MAX = 599"

definition ContentType_JSON :: string where
  "ContentType_JSON = ''application/json''"

definition EMPTY_RESPONSE :: string where
  "EMPTY_RESPONSE = ''Response body is empty''"

definition INVALID_JSON :: string where
  "INVALID_JSON = ''Invalid JSON format''"

definition MISSING_REQUIRED_FIELD :: string where
  "MISSING_REQUIRED_FIELD = ''Required field is missing''"


section \<open>ResponseValidator (helpers/response-validator.ts)\<close>

text \<open>
  The class has only static methods and no state.  Its logger calls write to the console
  and return; they are left out.  A status code is an integer, as an HTTP client reports it.
\<close>

record Validity =
  valid :: bool

record FieldValidation = Validity +
  missing :: "string list"

datatype details =
    ExpectedFields "string list"
  | FieldLists "string list" "string list"
  | Errors "string list"

record ValidationResult = Validity +
  message :: string
  details :: details

definition isSuccessful :: "int \<Rightarrow> bool" where
  "isSuccessful statusCode = (statusCode \<ge> SUCCESS_MIN \<and> statusCode \<le> SUCCESS_MAX)"

definition isClientError :: "int \<Rightarrow> bool" where
  "isClientError statusCode = (statusCode \<ge> CLIENT_ERROR_MIN \<and> statusCode \<le> CLIENT_ERROR_MAX)"

definition isServerError :: "int \<Rightarrow> bool" where
  "isServerError statusCode = (statusCode \<ge> SERVER_ERROR_MIN \<and> statusCode \<le> SERVER_ERROR_MAX)"

definition hasExpectedStatus :: "int \<Rightarrow> int \<Rightarrow> bool" where
  "hasExpectedStatus statusCode expectedCode = (statusCode = expectedCode)"

text \<open>\<open>fields.filter((field) => !(field in response))\<close>, with the throw of \<open>in\<close> kept.\<close>

fun missingFields :: "host \<Rightarrow> jsval \<Rightarrow> string list \<Rightarrow> error + string list" where
  "missingFields hst response [] = Inr []"
| "missingFields hst response (field # rest) =
     (case js_in hst field response of
        Inl e \<Rightarrow> Inl e
      | Inr present \<Rightarrow>
          (case missingFields hst response rest of
             Inl e \<Rightarrow> Inl e
           | Inr ms \<Rightarrow> Inr (if \<not> present then field # ms else ms)))"

definition hasRequiredFields :: "host \<Rightarrow> jsval \<Rightarrow> string list \<Rightarrow> error + FieldValidation" where
  "hasRequiredFields hst response fieldNames =
     (if typeof response \<noteq> ''object'' \<or> response = JNull
      then Inr \<lparr>valid = False, missing = fieldNames\<rparr>
      else (case missingFields hst response fieldNames of
              Inl e \<Rightarrow> Inl e
            | Inr ms \<Rightarrow> Inr \<lparr>valid = (length ms = 0), missing = ms\<rparr>))"

definition hasRequestFields :: "host \<Rightarrow> jsval \<Rightarrow> string list \<Rightarrow> error + FieldValidation" where
  "hasRequestFields hst response fieldNames = hasRequiredFields hst response fieldNames"

text \<open>
  \<open>response[field] === null || response[field] === undefined\<close> for a property that is
  present: an own property holds its value, an inherited one holds what the prototype gives.
\<close>

fun propertyIsNullish :: "host \<Rightarrow> jsval \<Rightarrow> string \<Rightarrow> bool" where
  "propertyIsNullish hst (JObj kvs) k =
     (case map_of kvs k of
        Some v \<Rightarrow> v = JNull \<or> v = JUndefined
      | None \<Rightarrow> inheritedType (objectProto hst) k = ''undefined'')"
| "propertyIsNullish hst (JArr xs) k =
     (if isArrayIndex k \<and> indexValue k < int (length xs)
      then xs ! nat (indexValue k) = JNull \<or> xs ! nat (indexValue k) = JUndefined
      else if k = ''length'' then False
      else inheritedType (arrayProto hst @ objectProto hst) k = ''undefined'')"
| "propertyIsNullish hst v k = True"

text \<open>The \<open>forEach\<close> of \<open>validateRequiredFields\<close>: the missing and the null fields.\<close>

fun missingAndNullFields ::
  "host \<Rightarrow> jsval \<Rightarrow> string list \<Rightarrow> error + string list \<times> string list" where
  "missingAndNullFields hst response [] = Inr ([], [])"
| "missingAndNullFields hst response (field # rest) =
     (case js_in hst field response of
        Inl e \<Rightarrow> Inl e
      | Inr present \<Rightarrow>
          (case missingAndNullFields hst response rest of
             Inl e \<Rightarrow> Inl e
           | Inr (ms, ns) \<Rightarrow>
               Inr (if \<not> present then (field # ms, ns)
                    else if propertyIsNullish hst response field then (ms, field # ns)
                    else (ms, ns))))"

definition validateRequiredFields ::
  "host \<Rightarrow> jsval \<Rightarrow> string list \<Rightarrow> error + ValidationResult" where
  "validateRequiredFields hst response fieldNames =
     (if typeof response \<noteq> ''object'' \<or> response = JNull
      then Inr \<lparr>valid = False, message = INVALID_JSON, details = ExpectedFields fieldNames\<rparr>
      else (case missingAndNullFields hst response fieldNames of
              Inl e \<Rightarrow> Inl e
            | Inr (ms, ns) \<Rightarrow>
                (let isValid = (length ms = 0 \<and> length ns = 0)
                 in Inr \<lparr>valid = isValid,
                         message = (if isValid then ''All required fields present and valid''
                                    else MISSING_REQUIRED_FIELD),
                         details = FieldLists ms ns\<rparr>)))"

text \<open>
  \<open>isValidJson\<close> and \<open>parseJsonSafely\<close> call \<open>JSON.parse\<close>, which is taken as a
  parameter: it returns the parsed value or throws.  A failed parse is answered with
  \<open>false\<close> and with \<open>null\<close>.  \<open>JSON.parse\<close> first makes a string of its argument, so
  \<open>parseJsonSafely\<close> also answers when it is handed \<open>undefined\<close>.
\<close>

definition isValidJson :: "(string \<Rightarrow> error + jsval) \<Rightarrow> string \<Rightarrow> bool" where
  "isValidJson JSON_parse response =
     (if response = [] \<or> trim response = [] then False
      else (case JSON_parse response of Inr v \<Rightarrow> True | Inl e \<Rightarrow> False))"

definition isvalidJson :: "(string \<Rightarrow> error + jsval) \<Rightarrow> string \<Rightarrow> bool" where
  "isvalidJson JSON_parse response = isValidJson JSON_parse response"

definition parseJsonSafely :: "(string \<Rightarrow> error + jsval) \<Rightarrow> string nullable \<Rightarrow> jsval" where
  "parseJsonSafely JSON_parse response =
     (case JSON_parse (toString response) of Inr v \<Rightarrow> v | Inl e \<Rightarrow> JNull)"

definition meetsPerformanceThresholds :: "number \<Rightarrow> number \<Rightarrow> bool" where
  "meetsPerformanceThresholds responseTime threshold =
     (if num_less responseTime (Finite 0) \<or> num_less threshold (Finite 0) then False
      else num_le responseTime threshold)"

definition hasResponseBody :: "jsval \<Rightarrow> bool" where
  "hasResponseBody body =
     (if body = JNull \<or> body = JUndefined then False
      else if (case body of JStr s \<Rightarrow> trim s = [] | _ \<Rightarrow> False) then False
      else if typeof body = ''object'' \<and> length (ownKeys body) = 0 then False
      else True)"

definition hasExpectedType :: "host \<Rightarrow> jsval \<Rightarrow> string \<Rightarrow> string \<Rightarrow> error + bool" where
  "hasExpectedType hst response field expectedType =
     (case js_in hst field response of
        Inl e \<Rightarrow> Inl e
      | Inr present \<Rightarrow>
          if \<not> present then Inr False
          else if propertyType hst response field \<noteq> expectedType then Inr False
          else Inr True)"

text \<open>The \<open>forEach\<close> over \<open>Object.entries(schema)\<close>; a throw ends the loop and the call.\<close>

fun schemaErrors :: "host \<Rightarrow> jsval \<Rightarrow> (string \<times> string) list \<Rightarrow> error + string list" where
  "schemaErrors hst response [] = Inr []"
| "schemaErrors hst response ((field, expectedType) # rest) =
     (case hasExpectedType hst response field expectedType of
        Inl e \<Rightarrow> Inl e
      | Inr ok \<Rightarrow>
          (case schemaErrors hst response rest of
             Inl e \<Rightarrow> Inl e
           | Inr es \<Rightarrow>
               Inr (if \<not> ok then (''Field '' @ [CHR 0x27] @ field @ [CHR 0x27] @ '' validation failed'') # es
                    else es)))"

definition validateSchema :: "host \<Rightarrow> jsval \<Rightarrow> string jsrecord \<Rightarrow> error + ValidationResult" where
  "validateSchema hst response schema =
     (case schemaErrors hst response (entries schema) of
        Inl e \<Rightarrow> Inl e
      | Inr errors \<Rightarrow>
          Inr \<lparr>valid = (length errors = 0),
               message = (if length errors = 0 then ''Schema validation passed''
                          else ''Schema validation failed''),
               details = Errors errors\<rparr>)"

definition hasMinLength :: "jsval \<Rightarrow> number \<Rightarrow> bool" where
  "hasMinLength response minLength =
     (case response of
        JArr xs \<Rightarrow> num_le minLength (Finite (real (length xs)))
      | _ \<Rightarrow> False)"

text \<open>
  The third check of \<open>validateResponse\<close>: the message pushed when required fields are given,
  non-empty, and \<open>hasRequiredFields\<close> reports some missing.
\<close>

definition requiredFieldErrors :: "host \<Rightarrow> jsval \<Rightarrow> string list option \<Rightarrow> error + string list" where
  "requiredFieldErrors hst body requiredFields =
     (case requiredFields of
        None \<Rightarrow> Inr []
      | Some fs \<Rightarrow>
          if length fs > 0 then
            (case hasRequiredFields hst body fs of
               Inl e \<Rightarrow> Inl e
             | Inr fieldValidation \<Rightarrow>
                 Inr (if \<not> valid fieldValidation
                      then [''Missing required fields: '' @ join '', '' (missing fieldValidation)]
                      else []))
          else Inr [])"

definition validateResponse ::
  "host \<Rightarrow> int \<Rightarrow> jsval \<Rightarrow> string list option \<Rightarrow> number option \<Rightarrow> error + ValidationResult" where
  "validateResponse hst statusCode body requiredFields maxDuration =
     (let errors1 = (if \<not> isSuccessful statusCode
                     then [''Invalid status code: '' @ show_int statusCode] else []);
          errors2 = errors1 @ (if \<not> hasResponseBody body then [EMPTY_RESPONSE] else [])
      in case requiredFieldErrors hst body requiredFields of
           Inl e \<Rightarrow> Inl e
         | Inr errors3 \<Rightarrow>
             (let errors = errors2 @ errors3
              in Inr \<lparr>valid = (length errors = 0),
                      message = (if length errors = 0 then ''Response validation passed''
                                 else ''Response validation failed''),
                      details = Errors errors\<rparr>))"


section \<open>RequestBuilder (helpers/request-builder.ts)\<close>

text \<open>
  \<open>encodeURIComponent\<close>: the unreserved characters stay, every other code unit is
  written as the percent-escapes of its UTF-8 bytes (one byte below 128, two below 256).
\<close>

definition isUnreserved :: "char \<Rightarrow> bool" where
  "isUnreserved c =
     (let n = (of_char c :: nat)
      in (65 \<le> n \<and> n \<le> 90) \<or> (97 \<le> n \<and> n \<le> 122) \<or> (48 \<le> n \<and> n \<le> 57)
         \<or> n \<in> set [45, 95, 46, 33, 126, 42, 39, 40, 41])"

definition hexChar :: "nat \<Rightarrow> char" where
  "hexChar n = ''0123456789ABCDEF'' ! n"

definition percentByte :: "nat \<Rightarrow> string" where
  "percentByte n = [CHR ''%'', hexChar (n div 16), hexChar (n mod 16)]"

definition encodeUnit :: "char \<Rightarrow> string" where
  "encodeUnit c =
     (let n = (of_char c :: nat)
      in if isUnreserved c then [c]
         else if n < 128 then percentByte n
         else percentByte (192 + n div 64) @ percentByte (128 + n mod 64))"

definition encodeURIComponent :: "string \<Rightarrow> string" where
  "encodeURIComponent s = concat (map encodeUnit s)"

text \<open>\<open>btoa\<close>: base64 of the code units of a string, three at a time, padded with \<open>=\<close>.\<close>

definition base64Char :: "nat \<Rightarrow> char" where
  "base64Char n = ''ABCDEFGHIJKLMNOPQRSTUVWXYZabcdefghijklmnopqrstuvwxyz0123456789+/'' ! n"

fun base64 :: "nat list \<Rightarrow> string" where
  "base64 [] = []"
| "base64 [a] = [base64Char (a div 4), base64Char ((a mod 4) * 16), CHR ''='', CHR ''='']"
| "base64 [a, b] =
     [base64Char (a div 4), base64Char ((a mod 4) * 16 + b div 16),
      base64Char ((b mod 16) * 4), CHR ''='']"
| "base64 (a # b # c # rest) =
     [base64Char (a div 4), base64Char ((a mod 4) * 16 + b div 16),
      base64Char ((b mod 16) * 4 + c div 64), base64Char (c mod 64)] @ base64 rest"

definition btoa :: "string \<Rightarrow> string" where
  "btoa s = base64 (map of_char s)"

text \<open>
  The assignment \<open>obj[k] = v\<close> on a plain object overwrites an own property in place and
  appends a new one otherwise.  The name \<open>__proto__\<close> is the exception: unless the object
  has an own property of that name, the assignment runs the setter inherited from
  \<open>Object.prototype\<close>, which ignores a value that is not an object and creates no property.
  \<open>delete obj[k]\<close> removes an own property.  The spread \<open>{...obj}\<close> creates a new object
  holding the own properties in enumeration order.
\<close>

definition set_prop :: "string jsrecord \<Rightarrow> string \<Rightarrow> string \<Rightarrow> string jsrecord" where
  "set_prop r k v =
     (if k = ''__proto__'' \<and> k \<notin> set (map fst r) then r else AList.update k v r)"

definition delete_prop :: "'a jsrecord \<Rightarrow> string \<Rightarrow> 'a jsrecord" where
  "delete_prop r k = AList.delete k r"

definition spread :: "'a jsrecord \<Rightarrow> 'a jsrecord" where
  "spread r = entries r"

text \<open>
  The heap: a builder object holds its base URL and a reference to its header object; the
  header objects live in a store of their own.  \<open>next_ref\<close> is the first address not yet
  allocated.  A method takes the heap and \<open>this\<close>, and returns its result (or the error
  thrown) together with the heap it leaves behind.
\<close>

type_synonym ref = nat

record RequestBuilder =
  baseUrl :: string
  headers :: ref

record heap =
  builders :: "ref \<Rightarrow> RequestBuilder"
  records :: "ref \<Rightarrow> string jsrecord"
  next_ref :: ref

definition emptyHeap :: heap where
  "emptyHeap = \<lparr>builders = (\<lambda>r. \<lparr>baseUrl = [], headers = 0\<rparr>), records = (\<lambda>r. []), next_ref = 0\<rparr>"

definition INVALID_URL :: string where
  "INVALID_URL = ''Invalid URL format provided''"

definition defaultHeaders :: "string jsrecord" where
  "defaultHeaders = [(''Content-Type'', ContentType_JSON), (''Accept'', ContentType_JSON)]"

text \<open>The header object of a builder, as it is in a heap.\<close>

definition headersOf :: "heap \<Rightarrow> ref \<Rightarrow> string jsrecord" where
  "headersOf h this = records h (headers (builders h this))"

definition allocRecord :: "heap \<Rightarrow> string jsrecord \<Rightarrow> ref \<times> heap" where
  "allocRecord h r =
     (next_ref h, h\<lparr>records := (records h)(next_ref h := r), next_ref := Suc (next_ref h)\<rparr>)"

text \<open>
  \<open>validateUrl\<close>: when \<open>new URL(url)\<close> throws, the catch block first calls
  \<open>this.logger.error\<close>.  The constructor calls \<open>validateUrl\<close> before it assigns
  \<open>this.logger\<close>, so there that call throws a \<open>TypeError\<close> and the \<open>throw new Error\<close>
  after it is not reached.
\<close>

definition validateUrl :: "host \<Rightarrow> bool \<Rightarrow> string \<Rightarrow> error option" where
  "validateUrl hst loggerAssigned url =
     (if urlParses hst url then None
      else if \<not> loggerAssigned then Some TypeError
      else Some (Error (INVALID_URL @ '': '' @ url)))"

text \<open>The constructor; when it throws, the object under construction is unreachable.\<close>

definition RequestBuilder_new :: "host \<Rightarrow> heap \<Rightarrow> string \<Rightarrow> (error + ref) \<times> heap" where
  "RequestBuilder_new hst h url =
     (case validateUrl hst False url of
        Some e \<Rightarrow> (Inl e, h)
      | None \<Rightarrow>
          (let this = next_ref h;
               (hdrs, h1) = allocRecord (h\<lparr>next_ref := Suc (next_ref h)\<rparr>) defaultHeaders
           in (Inr this,
               h1\<lparr>builders := (builders h1)
                    (this := \<lparr>baseUrl = (if endsWith url ''/'' then butlast url else url),
                              headers = hdrs\<rparr>)\<rparr>)))"

definition setHeader ::
  "heap \<Rightarrow> ref \<Rightarrow> string \<Rightarrow> string nullable \<Rightarrow> (error + ref) \<times> heap" where
  "setHeader h this key val =
     (if key = [] \<or> trim key = [] then (Inl (Error ''Header key cannot be empty''), h)
      else (case val of
              Value v \<Rightarrow>
                (Inr this,
                 h\<lparr>records := (records h)
                      (headers (builders h this) := set_prop (headersOf h this) key v)\<rparr>)
            | _ \<Rightarrow>
                (Inl (Error (''Header value for '' @ [CHR 0x27] @ key @ [CHR 0x27]
                              @ '' cannot be null or undefined'')), h)))"

text \<open>The \<open>forEach\<close> of \<open>setHeaders\<close>: a throw of \<open>setHeader\<close> ends it, earlier entries stay set.\<close>

fun setHeadersLoop ::
  "heap \<Rightarrow> ref \<Rightarrow> (string \<times> string nullable) list \<Rightarrow> (error + ref) \<times> heap" where
  "setHeadersLoop h this [] = (Inr this, h)"
| "setHeadersLoop h this ((key, val) # rest) =
     (case setHeader h this key val of
        (Inl e, h') \<Rightarrow> (Inl e, h')
      | (Inr r, h') \<Rightarrow> setHeadersLoop h' this rest)"

definition setHeaders ::
  "heap \<Rightarrow> ref \<Rightarrow> (string nullable) jsrecord \<Rightarrow> (error + ref) \<times> heap" where
  "setHeaders h this hdrs = setHeadersLoop h this (entries hdrs)"

definition setContentType :: "heap \<Rightarrow> ref \<Rightarrow> string nullable \<Rightarrow> (error + ref) \<times> heap" where
  "setContentType h this contentType = setHeader h this ''Content-Type'' contentType"

definition setBearerToken :: "heap \<Rightarrow> ref \<Rightarrow> string \<Rightarrow> (error + ref) \<times> heap" where
  "setBearerToken h this token = setHeader h this ''Authorization'' (Value (''Bearer '' @ token))"

definition setBasicAuth :: "heap \<Rightarrow> ref \<Rightarrow> string \<Rightarrow> string \<Rightarrow> (error + ref) \<times> heap" where
  "setBasicAuth h this username password =
     (let encoded = btoa (username @ '':'' @ password)
      in setHeader h this ''Authorization'' (Value (''Basic '' @ encoded)))"

definition buildUrl ::
  "heap \<Rightarrow> ref \<Rightarrow> string \<Rightarrow> (string nullable) jsrecord option \<Rightarrow> string" where
  "buildUrl h this endpoint queryParams =
     (let normalizedEndpoint = (if startsWith endpoint ''/'' then endpoint else ''/'' @ endpoint);
          url = baseUrl (builders h this) @ normalizedEndpoint
      in case queryParams of
           None \<Rightarrow> url
         | Some qp \<Rightarrow>
             if length (Object_keys qp) = 0 then url
             else
               (let validParams =
                      filter (\<lambda>(k, v). v \<noteq> Null \<and> v \<noteq> Undefined \<and> v \<noteq> Value []) (entries qp)
                in if length validParams = 0 then url
                   else
                     (let queryString =
                            join ''&''
                              (map (\<lambda>(k, v). encodeURIComponent k @ ''=''
                                              @ encodeURIComponent (toString v)) validParams)
                      in url @ ''?'' @ queryString)))"

definition getHeaders :: "heap \<Rightarrow> ref \<Rightarrow> ref \<times> heap" where
  "getHeaders h this = allocRecord h (spread (headersOf h this))"

definition getRequestHeaders :: "heap \<Rightarrow> ref \<Rightarrow> ref \<times> heap" where
  "getRequestHeaders h this = getHeaders h this"

definition removeHeader :: "heap \<Rightarrow> ref \<Rightarrow> string \<Rightarrow> ref \<times> heap" where
  "removeHeader h this key =
     (this,
      h\<lparr>records := (records h)
           (headers (builders h this) := delete_prop (headersOf h this) key)\<rparr>)"

definition clearHeaders :: "heap \<Rightarrow> ref \<Rightarrow> ref \<times> heap" where
  "clearHeaders h this =
     (let (hdrs, h1) = allocRecord h defaultHeaders
      in (this, h1\<lparr>builders := (builders h1)(this := (builders h1 this)\<lparr>headers := hdrs\<rparr>)\<rparr>))"

text \<open>
  \<open>buildPayload\<close> calls \<open>JSON.stringify\<close>, taken as a parameter: it returns the text
  (or \<open>undefined\<close>, when there is nothing to write) or throws; a throw is caught and thrown
  again as an \<open>Error\<close> whose message ends with the text of the one caught.
\<close>

definition buildPayload ::
  "(jsval \<Rightarrow> string + string nullable) \<Rightarrow> jsval \<Rightarrow> error + string nullable" where
  "buildPayload JSON_stringify payload =
     (case JSON_stringify payload of
        Inr text \<Rightarrow> Inr text
      | Inl thrown \<Rightarrow> Inl (Error (''Failed to serialize data to JSON: '' @ thrown)))"

definition getBaseUrl :: "heap \<Rightarrow> ref \<Rightarrow> string" where
  "getBaseUrl h this = baseUrl (builders h this)"

definition clone :: "host \<Rightarrow> heap \<Rightarrow> ref \<Rightarrow> (error + ref) \<times> heap" where
  "clone hst h this =
     (case RequestBuilder_new hst h (baseUrl (builders h this)) of
        (Inl e, h1) \<Rightarrow> (Inl e, h1)
      | (Inr newBuilder, h1) \<Rightarrow>
          (let (hdrs, h2) = allocRecord h1 (spread (headersOf h1 this))
           in (Inr newBuilder,
               h2\<lparr>builders := (builders h2)
                    (newBuilder := (builders h2 newBuilder)\<lparr>headers := hdrs\<rparr>)\<rparr>)))"

text \<open>The content of the object that \<open>getHeaders\<close> returns.\<close>

definition getHeadersValue :: "heap \<Rightarrow> ref \<Rightarrow> string jsrecord" where
  "getHeadersValue h this = (case getHeaders h this of (r, h') \<Rightarrow> records h' r)"

text \<open>The header operations of the class, and a sequence of them run on one builder.\<close>

datatype headerOp =
    SetHeader string "string nullable"
  | SetHeaders "(string nullable) jsrecord"
  | SetContentType "string nullable"
  | SetBearerToken string
  | SetBasicAuth string string
  | RemoveHeader string
  | ClearHeaders
  | GetHeaders

fun applyOp :: "heap \<Rightarrow> ref \<Rightarrow> headerOp \<Rightarrow> heap" where
  "applyOp h this (SetHeader k v) = snd (setHeader h this k v)"
| "applyOp h this (SetHeaders hdrs) = snd (setHeaders h this hdrs)"
| "applyOp h this (SetContentType ct) = snd (setContentType h this ct)"
| "applyOp h this (SetBearerToken t) = snd (setBearerToken h this t)"
| "applyOp h this (SetBasicAuth u p) = snd (setBasicAuth h this u p)"
| "applyOp h this (RemoveHeader k) = snd (removeHeader h this k)"
| "applyOp h this ClearHeaders = snd (clearHeaders h this)"
| "applyOp h this GetHeaders = snd (getHeaders h this)"

fun applyOps :: "heap \<Rightarrow> ref \<Rightarrow> headerOp list \<Rightarrow> heap" where
  "applyOps h this [] = h"
| "applyOps h this (op # ops) = applyOps (applyOp h this op) this ops"

text \<open>A host for the examples: its URL parser accepts three URLs.\<close>

definition exampleHost :: host where
  "exampleHost =
     \<lparr>urlParses = (\<lambda>s. s \<in> set [''https://api.example.com'', ''https://api.example.com/'',
                                  ''https://api.example.com//'']),
      objectProto = [(''constructor'', ''function''), (''hasOwnProperty'', ''function''),
                     (''isPrototypeOf'', ''function''), (''propertyIsEnumerable'', ''function''),
                     (''toLocaleString'', ''function''), (''toString'', ''function''),
                     (''valueOf'', ''function''), (''__proto__'', ''object'')],
      arrayProto = [(''concat'', ''function''), (''forEach'', ''function''),
                    (''indexOf'', ''function''), (''join'', ''function''),
                    (''map'', ''function''), (''push'', ''function''),
                    (''slice'', ''function'')]\<rparr>"

definition exampleHeap :: heap where
  "exampleHeap = snd (RequestBuilder_new exampleHost emptyHeap ''https://api.example.com'')"

definition slashHeap :: heap where
  "slashHeap = snd (RequestBuilder_new exampleHost emptyHeap ''https://api.example.com//'')"


section \<open>JSON.stringify and JSON.parse\<close>

text \<open>
  Modelled from the spec: \<open>JSON.stringify\<close> and \<open>JSON.parse\<close> are built-ins of the
  engine, not code of the repository.  The definitions follow the ECMAScript language
  specification (ECMA-262: \<open>JSON.stringify\<close> with \<open>SerializeJSONProperty\<close>,
  \<open>SerializeJSONObject\<close>, \<open>SerializeJSONArray\<close> and \<open>QuoteJSONString\<close>; \<open>JSON.parse\<close>
  with the JSON grammar) on the values of type \<open>jsval\<close>.  Such a value is a tree: it has no
  cycle, no function, no \<open>toJSON\<close> method and no \<open>BigInt\<close>, so \<open>JSON.stringify\<close> never
  throws on it.

  A string is written between double quotes.  The double quote and the backslash are
  written after a backslash; a control code unit (below 32) is written as a backslash and
  one of the letters \<open>b\<close>, \<open>t\<close>, \<open>n\<close>, \<open>f\<close>, \<open>r\<close>, or as a backslash, \<open>u00\<close> and two
  lower-case hexadecimal digits.
\<close>

definition doubleQuote :: char where "doubleQuote = CHR 0x22"
definition backslash :: char where "backslash = CHR 0x5C"

definition hexLower :: "nat \<Rightarrow> char" where
  "hexLower n = ''0123456789abcdef'' ! n"

definition escapeUnit :: "char \<Rightarrow> string" where
  "escapeUnit c =
     (if c = doubleQuote then [backslash, doubleQuote]
      else if c = backslash then [backslash, backslash]
      else if c = CHR 0x08 then [backslash, CHR ''b'']
      else if c = CHR 0x09 then [backslash, CHR ''t'']
      else if c = CHR 0x0A then [backslash, CHR ''n'']
      else if c = CHR 0x0C then [backslash, CHR ''f'']
      else if c = CHR 0x0D then [backslash, CHR ''r'']
      else if (of_char c :: nat) < 32
        then [backslash, CHR ''u'', CHR ''0'', CHR ''0'',
              hexLower (of_char c div 16), hexLower (of_char c mod 16)]
      else [c])"

definition QuoteJSONString :: "string \<Rightarrow> string" where
  "QuoteJSONString s = doubleQuote # concat (map escapeUnit s) @ [doubleQuote]"

text \<open>
  The text of a finite number (\<open>Number::toString\<close>) and the number that a numeric literal
  denotes (\<open>StringToNumber\<close>) are the engine's, defined on IEEE doubles; they are parameters.
\<close>

record numberText =
  Number_toString :: "real \<Rightarrow> string"
  StringToNumber :: "string \<Rightarrow> number"

text \<open>
  \<open>SerializeJSONProperty\<close>: \<open>undefined\<close> has no text; \<open>NaN\<close> and the infinities are
  written \<open>null\<close>.  An array writes \<open>null\<close> for an element that has no text.  An object
  enumerates its own properties (\<open>entries\<close>) and leaves out a property whose value has no
  text.
\<close>

fun serializeValue :: "numberText \<Rightarrow> jsval \<Rightarrow> string option"
  and serializeElements :: "numberText \<Rightarrow> jsval list \<Rightarrow> string list"
  and serializeMembers :: "numberText \<Rightarrow> (string \<times> jsval) list \<Rightarrow> (string \<times> string option) list"
where
  "serializeValue nt JUndefined = None"
| "serializeValue nt JNull = Some ''null''"
| "serializeValue nt (JBool b) = Some (if b then ''true'' else ''false'')"
| "serializeValue nt (JNum n) =
     Some (case n of Finite r \<Rightarrow> Number_toString nt r | _ \<Rightarrow> ''null'')"
| "serializeValue nt (JStr s) = Some (QuoteJSONString s)"
| "serializeValue nt (JArr xs) = Some (''['' @ join '','' (serializeElements nt xs) @ '']'')"
| "serializeValue nt (JObj kvs) =
     Some (''{''
           @ join '',''
               (List.map_filter
                  (\<lambda>p. map_option (\<lambda>t. QuoteJSONString (fst p) @ '':'' @ t) (snd p))
                  (entries (serializeMembers nt kvs)))
           @ ''}'')"
| "serializeElements nt [] = []"
| "serializeElements nt (v # vs) =
     (case serializeValue nt v of None \<Rightarrow> ''null'' | Some t \<Rightarrow> t) # serializeElements nt vs"
| "serializeMembers nt [] = []"
| "serializeMembers nt (p # ps) = (fst p, serializeValue nt (snd p)) # serializeMembers nt ps"

text \<open>\<open>JSON.stringify(v)\<close>: the text of \<open>v\<close>, or \<open>undefined\<close> when it has none.\<close>

definition JSON_stringify :: "numberText \<Rightarrow> jsval \<Rightarrow> string + string nullable" where
  "JSON_stringify nt v =
     (case serializeValue nt v of None \<Rightarrow> Inr Undefined | Some t \<Rightarrow> Inr (Value t))"

text \<open>White space of the JSON grammar: space, TAB, LF and CR.\<close>

definition isJsonWhitespace :: "char \<Rightarrow> bool" where
  "isJsonWhitespace c = (of_char c \<in> set [32, 9, 10, 13 :: nat])"

definition skipWhitespace :: "string \<Rightarrow> string" where
  "skipWhitespace s = dropWhile isJsonWhitespace s"

text \<open>
  The characters of a JSON string after the opening quote, up to the closing quote: a
  control code unit is refused, a backslash starts an escape.  A \<open>u\<close> escape of a code unit
  from 256 on is outside the code units of the model and is refused.
\<close>

definition hexValue :: "char \<Rightarrow> nat option" where
  "hexValue c =
     (let n = (of_char c :: nat)
      in if 48 \<le> n \<and> n \<le> 57 then Some (n - 48)
         else if 97 \<le> n \<and> n \<le> 102 then Some (n - 87)
         else if 65 \<le> n \<and> n \<le> 70 then Some (n - 55)
         else None)"

definition unescape :: "char \<Rightarrow> char option" where
  "unescape e =
     (if e = doubleQuote then Some doubleQuote
      else if e = backslash then Some backslash
      else if e = CHR ''/'' then Some CHR ''/''
      else if e = CHR ''b'' then Some (CHR 0x08)
      else if e = CHR ''f'' then Some (CHR 0x0C)
      else if e = CHR ''n'' then Some (CHR 0x0A)
      else if e = CHR ''r'' then Some (CHR 0x0D)
      else if e = CHR ''t'' then Some (CHR 0x09)
      else None)"

definition hex4 :: "char \<Rightarrow> char \<Rightarrow> char \<Rightarrow> char \<Rightarrow> nat option" where
  "hex4 a b c d =
     (case (hexValue a, hexValue b, hexValue c, hexValue d) of
        (Some w, Some x, Some y, Some z) \<Rightarrow> Some (((w * 16 + x) * 16 + y) * 16 + z)
      | _ \<Rightarrow> None)"

fun parseStringChars :: "string \<Rightarrow> (string \<times> string) option" where
  "parseStringChars [] = None"
| "parseStringChars (c # r) =
     (if c = doubleQuote then Some ([], r)
      else if c = backslash then
        (case r of
           [] \<Rightarrow> None
         | e # r1 \<Rightarrow>
             if e = CHR ''u'' then
               (case r1 of
                  a # b # c' # d # r2 \<Rightarrow>
                    (case hex4 a b c' d of
                       None \<Rightarrow> None
                     | Some n \<Rightarrow>
                         if n < 256
                         then map_option (\<lambda>(str, rest). (char_of n # str, rest)) (parseStringChars r2)
                         else None)
                | _ \<Rightarrow> None)
             else
               (case unescape e of
                  None \<Rightarrow> None
                | Some ch \<Rightarrow> map_option (\<lambda>(str, rest). (ch # str, rest)) (parseStringChars r1)))
      else if (of_char c :: nat) < 32 then None
      else map_option (\<lambda>(str, rest). (c # str, rest)) (parseStringChars r))"

text \<open>
  A JSON number: an optional minus sign, then \<open>0\<close> or digits that do not start with \<open>0\<close>,
  then an optional fraction and an optional exponent.  The token is the longest run of
  characters that a number can contain; it must be a JSON number as a whole.
\<close>

definition isNumberChar :: "char \<Rightarrow> bool" where
  "isNumberChar c = (c \<in> set ''0123456789+-.eE'')"

definition digitsOk :: "string \<Rightarrow> bool" where
  "digitsOk s = (s \<noteq> [] \<and> list_all isDigit s)"

definition exponentOk :: "string \<Rightarrow> bool" where
  "exponentOk s =
     (case s of
        [] \<Rightarrow> True
      | c # r \<Rightarrow>
          (c = CHR ''e'' \<or> c = CHR ''E'')
          \<and> (case r of
                [] \<Rightarrow> False
              | d # r1 \<Rightarrow> if d = CHR ''+'' \<or> d = CHR ''-'' then digitsOk r1 else digitsOk r))"

definition fractionOk :: "string \<Rightarrow> bool" where
  "fractionOk s =
     (case s of
        [] \<Rightarrow> True
      | c # r \<Rightarrow>
          if c = CHR ''.''
          then takeWhile isDigit r \<noteq> [] \<and> exponentOk (dropWhile isDigit r)
          else exponentOk s)"

definition isJsonNumber :: "string \<Rightarrow> bool" where
  "isJsonNumber s =
     (let body = (case s of [] \<Rightarrow> [] | c # r \<Rightarrow> if c = CHR ''-'' then r else s);
          whole = takeWhile isDigit body
      in whole \<noteq> [] \<and> (whole = ''0'' \<or> hd whole \<noteq> CHR ''0'')
         \<and> fractionOk (dropWhile isDigit body))"

definition lexNumber :: "string \<Rightarrow> (string \<times> string) option" where
  "lexNumber s =
     (let tok = takeWhile isNumberChar s
      in if isJsonNumber tok then Some (tok, dropWhile isNumberChar s) else None)"

text \<open>
  The parsed object is built with \<open>CreateDataProperty\<close>, one member after the other: a name
  that occurs again keeps its place and takes the later value, and \<open>__proto__\<close> is a name like
  any other.
\<close>

definition createProperties :: "(string \<times> jsval) list \<Rightarrow> (string \<times> jsval) list" where
  "createProperties ms = foldl (\<lambda>obj p. AList.update (fst p) (snd p) obj) [] ms"

text \<open>
  The parser of a JSON value, of the elements of an array after its first bracket, and of
  the members of an object after its brace.  The recursion is bounded by a counter, which
  \<open>JSON_parse\<close> sets to the length of the text plus one: a value is longer than it is deep.
\<close>

fun parseValue :: "numberText \<Rightarrow> nat \<Rightarrow> string \<Rightarrow> (jsval \<times> string) option"
  and parseElements :: "numberText \<Rightarrow> nat \<Rightarrow> string \<Rightarrow> (jsval list \<times> string) option"
  and parseMembers :: "numberText \<Rightarrow> nat \<Rightarrow> string \<Rightarrow> ((string \<times> jsval) list \<times> string) option"
where
  "parseValue nt 0 s = None"
| "parseValue nt (Suc n) s =
     (case skipWhitespace s of
        [] \<Rightarrow> None
      | c # r \<Rightarrow>
          if c = CHR ''{'' then
            (case skipWhitespace r of
               [] \<Rightarrow> None
             | c1 # r1 \<Rightarrow>
                 if c1 = CHR ''}'' then Some (JObj [], r1)
                 else (case parseMembers nt n (c1 # r1) of
                         None \<Rightarrow> None
                       | Some (ms, rest) \<Rightarrow> Some (JObj (createProperties ms), rest)))
          else if c = CHR ''['' then
            (case skipWhitespace r of
               [] \<Rightarrow> None
             | c1 # r1 \<Rightarrow>
                 if c1 = CHR '']'' then Some (JArr [], r1)
                 else (case parseElements nt n (c1 # r1) of
                         None \<Rightarrow> None
                       | Some (vs, rest) \<Rightarrow> Some (JArr vs, rest)))
          else if c = doubleQuote then
            (case parseStringChars r of
               None \<Rightarrow> None
             | Some (str, rest) \<Rightarrow> Some (JStr str, rest))
          else if c = CHR ''t'' then
            (if take 3 r = ''rue'' then Some (JBool True, drop 3 r) else None)
          else if c = CHR ''f'' then
            (if take 4 r = ''alse'' then Some (JBool False, drop 4 r) else None)
          else if c = CHR ''n'' then
            (if take 3 r = ''ull'' then Some (JNull, drop 3 r) else None)
          else
            (case lexNumber (c # r) of
               None \<Rightarrow> None
             | Some (tok, rest) \<Rightarrow> Some (JNum (StringToNumber nt tok), rest)))"
| "parseElements nt 0 s = None"
| "parseElements nt (Suc n) s =
     (case parseValue nt n s of
        None \<Rightarrow> None
      | Some (v, r) \<Rightarrow>
          (case skipWhitespace r of
             [] \<Rightarrow> None
           | c # r1 \<Rightarrow>
               if c = CHR '','' then
                 (case parseElements nt n r1 of
                    None \<Rightarrow> None
                  | Some (vs, rest) \<Rightarrow> Some (v # vs, rest))
               else if c = CHR '']'' then Some ([v], r1)
               else None))"
| "parseMembers nt 0 s = None"
| "parseMembers nt (Suc n) s =
     (case skipWhitespace s of
        [] \<Rightarrow> None
      | c # r \<Rightarrow>
          if c \<noteq> doubleQuote then None
          else
            (case parseStringChars r of
               None \<Rightarrow> None
             | Some (key, r1) \<Rightarrow>
                 (case skipWhitespace r1 of
                    [] \<Rightarrow> None
                  | c1 # r2 \<Rightarrow>
                      if c1 \<noteq> CHR '':'' then None
                      else
                        (case parseValue nt n r2 of
                           None \<Rightarrow> None
                         | Some (v, r3) \<Rightarrow>
                             (case skipWhitespace r3 of
                                [] \<Rightarrow> None
                              | c3 # r4 \<Rightarrow>
                                  if c3 = CHR '','' then
                                    (case parseMembers nt n r4 of
                                       None \<Rightarrow> None
                                     | Some (ms, rest) \<Rightarrow> Some ((key, v) # ms, rest))
                                  else if c3 = CHR ''}'' then Some ([(key, v)], r4)
                                  else None)))))"

text \<open>
  \<open>JSON.parse(s)\<close>: the value of the text, which may be followed by white space only;
  any other text throws a \<open>SyntaxError\<close>.
\<close>

definition JSON_parse :: "numberText \<Rightarrow> string \<Rightarrow> error + jsval" where
  "JSON_parse nt s =
     (case parseValue nt (Suc (length s)) s of
        None \<Rightarrow> Inl SyntaxError
      | Some (v, rest) \<Rightarrow> if skipWhitespace rest = [] then Inr v else Inl SyntaxError)"

text \<open>
  An example of the engine's number text, for integral numbers: the number is written
  with its decimal digits (as \<open>Number::toString\<close> writes an integral number of magnitude
  below \<open>10^21\<close>) and read back from them.
\<close>

definition integerText :: numberText where
  "integerText =
     \<lparr>Number_toString = (\<lambda>r. show_int \<lfloor>r\<rfloor>),
      StringToNumber = (\<lambda>s. case s of
                           [] \<Rightarrow> NaN
                         | c # r \<Rightarrow> if c = CHR ''-'' then Finite (- of_int (indexValue r))
                                    else Finite (of_int (indexValue s)))\<rparr>"


section \<open>The specification's words\<close>

text \<open>
  The three independent failures that \<open>validateResponse\<close> accumulates, as the
  specification lists them: a status outside 200..299, an empty body (null, absent, a blank
  string, or a structure with no keys), and required fields that are missing.
\<close>

definition spec_statusFailure :: "int \<Rightarrow> string list" where
  "spec_statusFailure statusCode =
     (if 200 \<le> statusCode \<and> statusCode \<le> 299 then []
      else [''Invalid status code: '' @ show_int statusCode])"

definition spec_emptyBody :: "jsval \<Rightarrow> bool" where
  "spec_emptyBody body =
     (case body of
        JUndefined \<Rightarrow> True
      | JNull \<Rightarrow> True
      | JStr s \<Rightarrow> list_all isWhiteSpace s
      | JArr xs \<Rightarrow> xs = []
      | JObj kvs \<Rightarrow> kvs = []
      | _ \<Rightarrow> False)"

definition spec_bodyFailure :: "jsval \<Rightarrow> string list" where
  "spec_bodyFailure body = (if spec_emptyBody body then [''Response body is empty''] else [])"

definition spec_missing :: "host \<Rightarrow> jsval \<Rightarrow> string list \<Rightarrow> string list" where
  "spec_missing hst body fs =
     (if isObject body then filter (\<lambda>f. \<not> hasProperty hst body f) fs else fs)"

definition spec_fieldsFailure :: "host \<Rightarrow> jsval \<Rightarrow> string list option \<Rightarrow> string list" where
  "spec_fieldsFailure hst body requiredFields =
     (case requiredFields of
        None \<Rightarrow> []
      | Some fs \<Rightarrow>
          if spec_missing hst body fs = [] then []
          else [''Missing required fields: '' @ join '', '' (spec_missing hst body fs)])"

text \<open>A base URL with one trailing slash removed, if it has one.\<close>

definition spec_stripOneSlash :: "string \<Rightarrow> string" where
  "spec_stripOneSlash b = (if b \<noteq> [] \<and> last b = CHR ''/'' then butlast b else b)"

text \<open>
  The URL of a path and a list of query pairs: the pairs whose value is null, absent or
  the empty string are dropped; if none is left the URL is the path; otherwise it is the path,
  a \<open>?\<close>, and the pairs left, each percent-encoded as \<open>key=value\<close>, joined with \<open>&\<close> in
  the order of the list.
\<close>

definition spec_keep :: "string nullable \<Rightarrow> bool" where
  "spec_keep v = (case v of Value s \<Rightarrow> s \<noteq> [] | _ \<Rightarrow> False)"

definition spec_pair :: "string \<times> string nullable \<Rightarrow> string" where
  "spec_pair p = encodeURIComponent (fst p) @ ''='' @ encodeURIComponent (toString (snd p))"

definition spec_queryUrl :: "string \<Rightarrow> (string \<times> string nullable) list \<Rightarrow> string" where
  "spec_queryUrl path pairs =
     (if filter (\<lambda>p. spec_keep (snd p)) pairs = [] then path
      else path @ ''?'' @ join ''&'' (map spec_pair (filter (\<lambda>p. spec_keep (snd p)) pairs)))"

text \<open>The path portion: the base endpoint, then the endpoint with one leading slash.\<close>

definition spec_path :: "string \<Rightarrow> string \<Rightarrow> string" where
  "spec_path base endpoint =
     base @ (case endpoint of
               [] \<Rightarrow> ''/''
             | c # cs \<Rightarrow> if c = CHR ''/'' then endpoint else CHR ''/'' # endpoint)"

text \<open>The characters a percent-escape is written with.\<close>

definition escapeChars :: "char set" where
  "escapeChars = insert CHR ''%'' (set ''0123456789ABCDEF'')"

text \<open>
  Two builders are separate in a heap when they are different objects, their header
  objects are different, and both header objects are allocated.
\<close>

definition separate :: "heap \<Rightarrow> ref \<Rightarrow> ref \<Rightarrow> bool" where
  "separate h a b =
     (a \<noteq> b \<and> headers (builders h a) \<noteq> headers (builders h b)
      \<and> headers (builders h a) < next_ref h \<and> headers (builders h b) < next_ref h)"



text \<open>
  Deep equality: the same primitive value; arrays of the same length with deep-equal
  elements; objects with the same own property names and a deep-equal value under each name,
  in whatever order the properties were created.
\<close>

fun deepEqual :: "jsval \<Rightarrow> jsval \<Rightarrow> bool"
  and deepEqualElements :: "jsval list \<Rightarrow> jsval list \<Rightarrow> bool"
  and deepEqualMembers :: "(string \<times> jsval) list \<Rightarrow> (string \<times> jsval) list \<Rightarrow> bool"
where
  "deepEqual (JArr xs) b = (case b of JArr ys \<Rightarrow> deepEqualElements xs ys | _ \<Rightarrow> False)"
| "deepEqual (JObj kvs) b =
     (case b of
        JObj kvs' \<Rightarrow> set (map fst kvs) = set (map fst kvs') \<and> deepEqualMembers kvs kvs'
      | _ \<Rightarrow> False)"
| "deepEqual JUndefined b = (b = JUndefined)"
| "deepEqual JNull b = (b = JNull)"
| "deepEqual (JBool p) b = (b = JBool p)"
| "deepEqual (JNum n) b = (b = JNum n)"
| "deepEqual (JStr s) b = (b = JStr s)"
| "deepEqualElements [] ys = (ys = [])"
| "deepEqualElements (x # xs) ys =
     (case ys of [] \<Rightarrow> False | y # ys' \<Rightarrow> deepEqual x y \<and> deepEqualElements xs ys')"
| "deepEqualMembers [] kvs' = True"
| "deepEqualMembers (p # ps) kvs' =
     ((case map_of kvs' (fst p) of None \<Rightarrow> False | Some v \<Rightarrow> deepEqual (snd p) v)
      \<and> deepEqualMembers ps kvs')"

text \<open>
  What the round trip needs of the engine's number text, for a number \<open>r\<close>: the text of
  \<open>r\<close> is one JSON number, and the number read from it is \<open>r\<close>.  \<open>numbersOk\<close> asks it of
  the finite numbers that occur in a value.
\<close>

definition numberOk :: "numberText \<Rightarrow> real \<Rightarrow> bool" where
  "numberOk nt r =
     (lexNumber (Number_toString nt r) = Some (Number_toString nt r, [])
      \<and> StringToNumber nt (Number_toString nt r) = Finite r)"

fun numbersOf :: "jsval \<Rightarrow> real list"
  and numbersOfElements :: "jsval list \<Rightarrow> real list"
  and numbersOfMembers :: "(string \<times> jsval) list \<Rightarrow> real list"
where
  "numbersOf (JNum n) = (case n of Finite r \<Rightarrow> [r] | _ \<Rightarrow> [])"
| "numbersOf (JArr xs) = numbersOfElements xs"
| "numbersOf (JObj kvs) = numbersOfMembers kvs"
| "numbersOf JUndefined = []"
| "numbersOf JNull = []"
| "numbersOf (JBool b) = []"
| "numbersOf (JStr s) = []"
| "numbersOfElements [] = []"
| "numbersOfElements (v # vs) = numbersOf v @ numbersOfElements vs"
| "numbersOfMembers [] = []"
| "numbersOfMembers (p # ps) = numbersOf (snd p) @ numbersOfMembers ps"

definition numbersOk :: "numberText \<Rightarrow> jsval \<Rightarrow> bool" where
  "numbersOk nt x = list_all (numberOk nt) (numbersOf x)"






section \<open>Properties of the response validator\<close>

lemma trim_empty_iff: "trim s = [] \<longleftrightarrow> list_all isWhiteSpace s"
proof -
  have "dropWhile isWhiteSpace s = [] \<longleftrightarrow> list_all isWhiteSpace s"
    by (simp add: dropWhile_eq_Nil_conv list_all_iff)
  moreover have "rev (dropWhile isWhiteSpace (rev (dropWhile isWhiteSpace s))) = []
      \<longleftrightarrow> dropWhile isWhiteSpace s = []"
  proof
    assume "rev (dropWhile isWhiteSpace (rev (dropWhile isWhiteSpace s))) = []"
    then have a: "\<forall>c\<in>set (dropWhile isWhiteSpace s). isWhiteSpace c"
      by (simp add: dropWhile_eq_Nil_conv)
    show "dropWhile isWhiteSpace s = []"
    proof (cases "dropWhile isWhiteSpace s")
      case Nil
      then show ?thesis .
    next
      case (Cons c cs)
      then have "\<not> isWhiteSpace c"
        using hd_dropWhile[of isWhiteSpace s] by simp
      with a Cons show ?thesis by simp
    qed
  next
    assume "dropWhile isWhiteSpace s = []"
    then show "rev (dropWhile isWhiteSpace (rev (dropWhile isWhiteSpace s))) = []"
      by (simp only: rev.simps dropWhile.simps)
  qed
  ultimately show ?thesis
    unfolding trim_def by blast
qed

lemma length_entries: "length (entries r) = length r"
  by (simp add: entries_def sum_length_filter_compl)

lemma entries_no_index: "list_all (\<lambda>p. \<not> isArrayIndex (fst p)) r \<Longrightarrow> entries r = r"
  by (simp add: entries_def filter_empty_conv list_all_iff)

lemma isObject_typeof: "isObject v \<longleftrightarrow> typeof v = ''object'' \<and> v \<noteq> JNull"
  by (cases v) simp_all

text \<open>On an object or an array the \<open>in\<close> operator does not throw, so the filter runs through.\<close>

lemma missingFields_object:
  "isObject response \<Longrightarrow>
     missingFields hst response fs = Inr (filter (\<lambda>f. \<not> hasProperty hst response f) fs)"
  by (induction fs) (simp_all add: js_in_def)

lemma hasRequiredFields_total:
  "hasRequiredFields hst response fs =
     Inr \<lparr>valid = (spec_missing hst response fs = [] \<and> isObject response),
          missing = spec_missing hst response fs\<rparr>"
  using isObject_typeof[of response]
  by (auto simp add: hasRequiredFields_def spec_missing_def missingFields_object)

lemma hasResponseBody_spec: "hasResponseBody body = (\<not> spec_emptyBody body)"
  by (cases body) (simp_all add: hasResponseBody_def spec_emptyBody_def trim_empty_iff
      Object_keys_def length_entries)

lemma isSuccessful_spec: "isSuccessful sc = (200 \<le> sc \<and> sc \<le> 299)"
  by (simp add: isSuccessful_def SUCCESS_MIN_def SUCCESS_MAX_def)

lemma requiredFieldErrors_spec:
  "requiredFieldErrors hst body rf = Inr (spec_fieldsFailure hst body rf)"
  by (cases rf) (auto simp add: requiredFieldErrors_def spec_fieldsFailure_def
      hasRequiredFields_total spec_missing_def)

text \<open>
  C1.  For every status code, body and required-field list, \<open>validateResponse\<close> returns
  the same result whatever \<open>maxDuration\<close> is; it never throws; its \<open>valid\<close> field is true
  exactly when its \<open>details.errors\<close> list is empty; and that list is the status failure (if
  the status is not 2xx), then the empty-body failure (if the body is empty), then the
  missing-fields failure (if required fields are given and some are missing).
\<close>

theorem validateResponse_accumulates:
  "validateResponse hst statusCode body requiredFields d1
     = validateResponse hst statusCode body requiredFields d2
   \<and> (\<exists>r. validateResponse hst statusCode body requiredFields d1 = Inr r
        \<and> (valid r \<longleftrightarrow> details r = Errors [])
        \<and> details r = Errors (spec_statusFailure statusCode @ spec_bodyFailure body
                                @ spec_fieldsFailure hst body requiredFields))"
  by (simp add: validateResponse_def requiredFieldErrors_spec Let_def isSuccessful_spec
      hasResponseBody_spec spec_statusFailure_def spec_bodyFailure_def EMPTY_RESPONSE_def)

theorem validateResponse_accumulates_witness:
  "validateResponse exampleHost 404 (JStr '' '') (Some [''id'', ''name'']) (Some (Finite 200))
     = validateResponse exampleHost 404 (JStr '' '') (Some [''id'', ''name'']) None
   \<and> validateResponse exampleHost 404 (JStr '' '') (Some [''id'', ''name'']) None
     = Inr \<lparr>valid = False, message = ''Response validation failed'',
            details = Errors [''Invalid status code: 404'', ''Response body is empty'',
                              ''Missing required fields: id, name'']\<rparr>"
proof -
  have "spec_statusFailure 404 = [''Invalid status code: 404'']"
    by (simp add: spec_statusFailure_def show_int_def digitChar_def)
  moreover have "spec_bodyFailure (JStr '' '') = [''Response body is empty'']"
    by (simp add: spec_bodyFailure_def spec_emptyBody_def isWhiteSpace_def)
  moreover have "spec_fieldsFailure exampleHost (JStr '' '') (Some [''id'', ''name''])
      = [''Missing required fields: id, name'']"
    by (simp add: spec_fieldsFailure_def spec_missing_def)
  ultimately show ?thesis
    using validateResponse_accumulates[of exampleHost 404 "JStr '' ''" "Some [''id'', ''name'']"
        "Some (Finite 200)" None]
    by (auto simp add: validateResponse_def Let_def requiredFieldErrors_spec)
qed

text \<open>
  C3.  The claim is that no function of the validator throws, also for a null or
  non-object response given to \<open>hasExpectedType\<close> and \<open>validateSchema\<close>.  The code applies
  the \<open>in\<close> operator to the response without the object test that \<open>hasRequiredFields\<close>
  and \<open>validateRequiredFields\<close> make first: on \<open>null\<close>, \<open>hasExpectedType\<close> throws a
  \<open>TypeError\<close>, and so does \<open>validateSchema\<close> with a schema of one field.
\<close>

theorem hasExpectedType_null_throws:
  "hasExpectedType hst JNull ''id'' ''number'' = Inl TypeError
   \<and> validateSchema hst JNull [(''id'', ''number'')] = Inl TypeError
   \<and> hasRequiredFields hst JNull [''id''] = Inr \<lparr>valid = False, missing = [''id'']\<rparr>"
  by (simp add: hasExpectedType_def js_in_def validateSchema_def entries_def isArrayIndex_def
      isDigit_def hasRequiredFields_def)

theorem hasExpectedType_null_throws_witness:
  "hasExpectedType exampleHost JNull ''id'' ''number'' = Inl TypeError
   \<and> validateSchema exampleHost JNull [(''id'', ''number'')] = Inl TypeError"
  using hasExpectedType_null_throws[of exampleHost] by simp

text \<open>
  C9.  \<open>meetsPerformanceThresholds observed threshold\<close> is false whenever one of the
  two is below zero, and otherwise it is the comparison \<open>observed <= threshold\<close>; on finite
  numbers it holds exactly when both are at least zero and the observed one is at most the
  threshold, so an observed duration equal to the threshold passes.
\<close>

theorem meetsPerformanceThresholds_spec:
  "(num_less observed (Finite 0) \<or> num_less threshold (Finite 0)
      \<longrightarrow> \<not> meetsPerformanceThresholds observed threshold)
   \<and> (\<not> num_less observed (Finite 0) \<and> \<not> num_less threshold (Finite 0)
      \<longrightarrow> meetsPerformanceThresholds observed threshold = num_le observed threshold)
   \<and> (\<forall>x y. meetsPerformanceThresholds (Finite x) (Finite y) = (0 \<le> x \<and> 0 \<le> y \<and> x \<le> y))
   \<and> (\<forall>x. 0 \<le> x \<longrightarrow> meetsPerformanceThresholds (Finite x) (Finite x))"
  by (auto simp add: meetsPerformanceThresholds_def num_le_def)

theorem meetsPerformanceThresholds_spec_witness:
  "meetsPerformanceThresholds (Finite 450) (Finite 500)
   \<and> \<not> meetsPerformanceThresholds (Finite 600) (Finite 500)
   \<and> meetsPerformanceThresholds (Finite 500) (Finite 500)
   \<and> \<not> meetsPerformanceThresholds (Finite (- 1)) (Finite 500)
   \<and> \<not> meetsPerformanceThresholds (Finite 100) (Finite (- 1))
   \<and> \<not> meetsPerformanceThresholds NaN (Finite 500)"
  using meetsPerformanceThresholds_spec[of "Finite (- 1)" "Finite 500"]
    meetsPerformanceThresholds_spec[of "Finite 100" "Finite (- 1)"]
    meetsPerformanceThresholds_spec[of NaN "Finite 500"]
  by (simp add: num_le_def)

text \<open>
  C10.  For an array body \<open>hasRequiredFields\<close> does not answer as for a non-object (all
  fields missing): it returns the fields for which \<open>field in array\<close> is false, in the order
  given, and is valid when there is none.  Every array has the property \<open>length\<close>, so the
  field list \<open>["length"]\<close> is valid with nothing missing.
\<close>

theorem hasRequiredFields_array:
  "hasRequiredFields hst (JArr a) fs
      = Inr \<lparr>valid = (filter (\<lambda>f. \<not> hasProperty hst (JArr a) f) fs = []),
             missing = filter (\<lambda>f. \<not> hasProperty hst (JArr a) f) fs\<rparr>
   \<and> hasProperty hst (JArr a) ''length''
   \<and> hasRequiredFields hst (JArr a) [''length''] = Inr \<lparr>valid = True, missing = []\<rparr>"
  by (simp add: hasRequiredFields_total spec_missing_def)

theorem hasRequiredFields_array_witness:
  "hasRequiredFields exampleHost (JArr [JNull]) [''length'', ''0'', ''1'', ''id'']
      = Inr \<lparr>valid = False, missing = [''1'', ''id'']\<rparr>
   \<and> hasRequiredFields exampleHost (JArr []) [''length''] = Inr \<lparr>valid = True, missing = []\<rparr>"
  using hasRequiredFields_array[of exampleHost "[JNull]" "[''length'', ''0'', ''1'', ''id'']"]
    hasRequiredFields_array[of exampleHost "[]" "[''length'']"]
  by (simp add: exampleHost_def isArrayIndex_def isDigit_def indexValue_def)


section \<open>Properties of the request builder\<close>

lemma endsWith_slash: "endsWith b ''/'' \<longleftrightarrow> b \<noteq> [] \<and> last b = CHR ''/''"
proof (cases b rule: rev_cases)
  case Nil
  then show ?thesis by (simp add: endsWith_def)
next
  case (snoc ys y)
  then show ?thesis by (auto simp add: endsWith_def)
qed

lemma normalized_path:
  "baseUrl (builders h this) @ (if startsWith e ''/'' then e else ''/'' @ e)
     = spec_path (getBaseUrl h this) e"
  by (cases e) (auto simp add: spec_path_def getBaseUrl_def startsWith_def)

lemma exampleHeap_new:
  "RequestBuilder_new exampleHost emptyHeap ''https://api.example.com'' = (Inr 0, exampleHeap)"
  by (simp add: exampleHeap_def RequestBuilder_new_def validateUrl_def exampleHost_def
      allocRecord_def Let_def emptyHeap_def endsWith_def)

lemma exampleHeap_builder:
  "baseUrl (builders exampleHeap 0) = ''https://api.example.com''
   \<and> headers (builders exampleHeap 0) = Suc 0
   \<and> records exampleHeap (Suc 0) = defaultHeaders
   \<and> next_ref exampleHeap = 2"
  by (simp add: exampleHeap_def RequestBuilder_new_def validateUrl_def exampleHost_def
      allocRecord_def emptyHeap_def endsWith_def)

text \<open>
  C2.  The claim is that, for a valid base URL \<open>b\<close>, \<open>buildUrl("")\<close> with no query
  parameters returns \<open>b\<close> without one trailing slash, nothing appended.  It fails at
  \<open>b = "https://api.example.com"\<close>: \<open>buildUrl\<close> first makes the endpoint start with a
  slash, so the empty endpoint becomes \<open>"/"\<close> and the result is
  \<open>"https://api.example.com/"\<close>.
\<close>

theorem buildUrl_empty_endpoint_counterexample:
  "urlParses exampleHost ''https://api.example.com''
   \<and> RequestBuilder_new exampleHost emptyHeap ''https://api.example.com'' = (Inr 0, exampleHeap)
   \<and> spec_stripOneSlash ''https://api.example.com'' = ''https://api.example.com''
   \<and> buildUrl exampleHeap 0 [] None = ''https://api.example.com/''
   \<and> buildUrl exampleHeap 0 [] None \<noteq> spec_stripOneSlash ''https://api.example.com''"
proof -
  have "urlParses exampleHost ''https://api.example.com''"
    by (simp add: exampleHost_def)
  then show ?thesis
    by (simp add: exampleHeap_new exampleHeap_builder buildUrl_def startsWith_def
        spec_stripOneSlash_def)
qed

text \<open>
  C2, amended.  For every base URL \<open>b\<close> that the URL parser accepts, the constructor
  succeeds and stores \<open>b\<close> without one trailing slash, and \<open>buildUrl("")\<close> with no query
  parameters (absent or empty) returns that stored endpoint followed by a single \<open>/\<close>.
\<close>

theorem buildUrl_empty_endpoint:
  assumes "urlParses hst b"
  shows "\<exists>this h'. RequestBuilder_new hst h b = (Inr this, h')
           \<and> getBaseUrl h' this = spec_stripOneSlash b
           \<and> buildUrl h' this [] None = spec_stripOneSlash b @ ''/''
           \<and> buildUrl h' this [] (Some []) = spec_stripOneSlash b @ ''/''"
  using assms
  by (simp add: RequestBuilder_new_def validateUrl_def allocRecord_def Let_def buildUrl_def
      getBaseUrl_def spec_stripOneSlash_def endsWith_slash startsWith_def Object_keys_def
      entries_def)

theorem buildUrl_empty_endpoint_witness:
  "urlParses exampleHost ''https://api.example.com/''
   \<and> (\<exists>this h'. RequestBuilder_new exampleHost emptyHeap ''https://api.example.com/'' = (Inr this, h')
         \<and> getBaseUrl h' this = ''https://api.example.com''
         \<and> buildUrl h' this [] None = ''https://api.example.com/'')"
proof -
  have u: "urlParses exampleHost ''https://api.example.com/''"
    by (simp add: exampleHost_def)
  have s: "spec_stripOneSlash ''https://api.example.com/'' = ''https://api.example.com''"
    by (simp add: spec_stripOneSlash_def)
  show ?thesis
    using u buildUrl_empty_endpoint[OF u, of emptyHeap] unfolding s by auto
qed

text \<open>
  The header operations.  \<open>setHeader\<close> throws on a key that is empty or blank and on a
  value that is null or undefined, and then leaves the heap as it was; for any other key
  but \<open>__proto__\<close> it stores the value under the key and changes nothing else of the
  builder.
\<close>

lemma setHeader_contract:
  "(list_all isWhiteSpace key \<longrightarrow>
       setHeader h this key val = (Inl (Error ''Header key cannot be empty''), h))
   \<and> (\<not> list_all isWhiteSpace key \<and> (val = Null \<or> val = Undefined) \<longrightarrow>
       (\<exists>msg. setHeader h this key val = (Inl (Error msg), h)))
   \<and> (\<not> list_all isWhiteSpace key \<and> key \<noteq> ''__proto__'' \<longrightarrow>
       fst (setHeader h this key (Value v)) = Inr this
       \<and> builders (snd (setHeader h this key (Value v))) = builders h
       \<and> map_of (headersOf (snd (setHeader h this key (Value v))) this)
            = (map_of (headersOf h this))(key \<mapsto> v))"
  by (cases key) (auto simp add: setHeader_def trim_empty_iff set_prop_def headersOf_def update_conv')

text \<open>
  C4.  The claim is that \<open>setHeader\<close>, when key and value pass its two checks, inserts
  or overwrites the entry.  For the key \<open>__proto__\<close> the assignment
  \<open>this.headers[key] = value\<close> stores nothing: the call returns the builder, and the
  header mapping, and what \<open>getHeaders\<close> returns, have no entry for the key.  Another key,
  such as \<open>Authorization\<close>, is stored.
\<close>

theorem setHeader_proto_not_stored:
  "fst (setHeader exampleHeap 0 ''__proto__'' (Value ''x'')) = Inr 0
   \<and> headersOf exampleHeap 0 = defaultHeaders
   \<and> headersOf (snd (setHeader exampleHeap 0 ''__proto__'' (Value ''x''))) 0 = defaultHeaders
   \<and> map_of (getHeadersValue (snd (setHeader exampleHeap 0 ''__proto__'' (Value ''x''))) 0)
        ''__proto__'' = None
   \<and> map_of (getHeadersValue (snd (setHeader exampleHeap 0 ''Authorization'' (Value ''Bearer abc''))) 0)
        ''Authorization'' = Some ''Bearer abc''"
  by (simp add: setHeader_def trim_def isWhiteSpace_def set_prop_def headersOf_def
      exampleHeap_builder getHeadersValue_def getHeaders_def allocRecord_def spread_def
      entries_def defaultHeaders_def isArrayIndex_def isDigit_def)


subsection \<open>Clone\<close>

lemma separate_sym: "separate h a b \<Longrightarrow> separate h b a"
  by (auto simp add: separate_def)

text \<open>
  A header operation on one of two separate builders keeps them separate and leaves the
  other builder, and the content of its header object, as they were.
\<close>

lemma setHeader_frame:
  assumes "separate h a b"
  shows "separate (snd (setHeader h b k v)) a b
       \<and> builders (snd (setHeader h b k v)) a = builders h a
       \<and> headersOf (snd (setHeader h b k v)) a = headersOf h a"
  using assms by (cases v) (auto simp add: setHeader_def separate_def headersOf_def)

lemma setHeadersLoop_frame:
  "separate h a b \<Longrightarrow>
     separate (snd (setHeadersLoop h b kvs)) a b
       \<and> builders (snd (setHeadersLoop h b kvs)) a = builders h a
       \<and> headersOf (snd (setHeadersLoop h b kvs)) a = headersOf h a"
proof (induction kvs arbitrary: h)
  case Nil
  then show ?case by simp
next
  case (Cons kv kvs)
  obtain k v where kv: "kv = (k, v)"
    by (cases kv)
  obtain res h' where s: "setHeader h b k v = (res, h')"
    by (cases "setHeader h b k v")
  have f: "separate h' a b \<and> builders h' a = builders h a \<and> headersOf h' a = headersOf h a"
    using setHeader_frame[OF Cons.prems, of k v] s by simp
  show ?case
  proof (cases res)
    case (Inl e)
    then show ?thesis using kv s f by simp
  next
    case (Inr r)
    then show ?thesis using kv s f Cons.IH[of h'] by simp
  qed
qed

lemma applyOp_frame:
  assumes "separate h a b"
  shows "separate (applyOp h b op) a b
       \<and> builders (applyOp h b op) a = builders h a
       \<and> headersOf (applyOp h b op) a = headersOf h a"
proof (cases op)
  case (SetHeader k v)
  then show ?thesis using setHeader_frame[OF assms] by simp
next
  case (SetHeaders hdrs)
  then show ?thesis using setHeadersLoop_frame[OF assms] by (simp add: setHeaders_def)
next
  case (SetContentType ct)
  then show ?thesis using setHeader_frame[OF assms] by (simp add: setContentType_def)
next
  case (SetBearerToken t)
  then show ?thesis using setHeader_frame[OF assms] by (simp add: setBearerToken_def)
next
  case (SetBasicAuth u p)
  then show ?thesis using setHeader_frame[OF assms] by (simp add: setBasicAuth_def)
next
  case (RemoveHeader k)
  then show ?thesis using assms
    by (auto simp add: removeHeader_def separate_def headersOf_def)
next
  case ClearHeaders
  then show ?thesis using assms
    by (auto simp add: clearHeaders_def allocRecord_def separate_def headersOf_def)
next
  case GetHeaders
  then show ?thesis using assms
    by (auto simp add: getHeaders_def allocRecord_def separate_def headersOf_def)
qed

lemma applyOps_frame:
  "separate h a b \<Longrightarrow>
     separate (applyOps h b ops) a b
       \<and> builders (applyOps h b ops) a = builders h a
       \<and> headersOf (applyOps h b ops) a = headersOf h a"
proof (induction ops arbitrary: h)
  case Nil
  then show ?case by simp
next
  case (Cons op ops)
  have f: "separate (applyOp h b op) a b \<and> builders (applyOp h b op) a = builders h a
      \<and> headersOf (applyOp h b op) a = headersOf h a"
    using applyOp_frame[OF Cons.prems] .
  then show ?case using Cons.IH[of "applyOp h b op"] by simp
qed

lemma getHeadersValue_headersOf: "getHeadersValue h this = spread (headersOf h this)"
  by (simp add: getHeadersValue_def getHeaders_def allocRecord_def)

lemma clone_separate:
  assumes c: "clone hst h a = (Inr b, h1)"
    and a: "a < next_ref h" "headers (builders h a) < next_ref h"
  shows "separate h1 a b \<and> headersOf h1 b = spread (headersOf h a)
       \<and> headersOf h1 a = headersOf h a \<and> builders h1 a = builders h a"
  using c a
  by (auto simp add: clone_def RequestBuilder_new_def allocRecord_def separate_def headersOf_def
      Let_def split: option.splits)

text \<open>
  The headers of a clone are a copy: when \<open>clone\<close> returns, the clone's header object
  holds what the original's \<open>getHeaders\<close> returns, and no sequence of header operations on
  one of the two builders changes what \<open>getHeaders\<close> returns for the other.
\<close>

lemma clone_headers_independent:
  assumes c: "clone hst h a = (Inr b, h1)"
    and a: "a < next_ref h" "headers (builders h a) < next_ref h"
  shows "headersOf h1 b = getHeadersValue h a
       \<and> getHeadersValue h1 a = getHeadersValue h a
       \<and> (\<forall>ops. getHeadersValue (applyOps h1 b ops) a = getHeadersValue h1 a)
       \<and> (\<forall>ops. getHeadersValue (applyOps h1 a ops) b = getHeadersValue h1 b)"
  using clone_separate[OF c a] applyOps_frame[of h1 a b] applyOps_frame[of h1 b a]
    separate_sym[of h1 a b]
  by (simp add: getHeadersValue_headersOf)

text \<open>
  An instance: the builder of the example heap and its clone, with operations run on the
  clone and then on the original.
\<close>

lemma exampleHeap_clone:
  "clone exampleHost exampleHeap 0 = (Inr 2, snd (clone exampleHost exampleHeap 0))"
  by (simp add: clone_def RequestBuilder_new_def validateUrl_def exampleHost_def allocRecord_def
      Let_def exampleHeap_builder endsWith_def)

lemma clone_headers_independent_example:
  "getHeadersValue
      (applyOps (snd (clone exampleHost exampleHeap 0)) 2
         [SetHeader ''X-Cloned'' (Value ''cloned-value''), RemoveHeader ''Accept'', ClearHeaders]) 0
     = defaultHeaders
   \<and> getHeadersValue
      (applyOps (snd (clone exampleHost exampleHeap 0)) 0
         [SetHeader ''X-Original'' (Value ''value''), RemoveHeader ''Accept'']) 2
     = defaultHeaders"
proof -
  let ?h1 = "snd (clone exampleHost exampleHeap 0)"
  have a: "0 < next_ref exampleHeap" "headers (builders exampleHeap 0) < next_ref exampleHeap"
    by (simp_all add: exampleHeap_builder)
  have g: "getHeadersValue exampleHeap 0 = defaultHeaders"
    by (simp add: getHeadersValue_headersOf headersOf_def exampleHeap_builder spread_def
        entries_def defaultHeaders_def isArrayIndex_def isDigit_def)
  have s: "spread defaultHeaders = defaultHeaders"
    by (simp add: spread_def entries_def defaultHeaders_def isArrayIndex_def isDigit_def)
  note i = clone_headers_independent[OF exampleHeap_clone a]
  have b: "getHeadersValue ?h1 2 = defaultHeaders"
    using i g s by (simp add: getHeadersValue_headersOf)
  have o: "getHeadersValue ?h1 0 = defaultHeaders"
    using i g by simp
  from i have "getHeadersValue (applyOps ?h1 2
         [SetHeader ''X-Cloned'' (Value ''cloned-value''), RemoveHeader ''Accept'', ClearHeaders]) 0
       = getHeadersValue ?h1 0"
    by blast
  moreover from i have "getHeadersValue (applyOps ?h1 0
         [SetHeader ''X-Original'' (Value ''value''), RemoveHeader ''Accept'']) 2
       = getHeadersValue ?h1 2"
    by blast
  ultimately show ?thesis
    by (simp only: b o)
qed

text \<open>
  C5.  The claim is that \<open>clone\<close> produces a builder with the same base endpoint (and
  an independent copy of the headers).  \<open>clone\<close> passes the stored base URL through the
  constructor again, which removes a trailing slash again: a builder made from
  \<open>"https://api.example.com//"\<close> stores \<open>"https://api.example.com/"\<close>, and its clone
  stores \<open>"https://api.example.com"\<close>.
\<close>

theorem clone_base_endpoint_differs:
  "RequestBuilder_new exampleHost emptyHeap ''https://api.example.com//'' = (Inr 0, slashHeap)
   \<and> getBaseUrl slashHeap 0 = ''https://api.example.com/''
   \<and> fst (clone exampleHost slashHeap 0) = Inr 2
   \<and> getBaseUrl (snd (clone exampleHost slashHeap 0)) 0 = ''https://api.example.com/''
   \<and> getBaseUrl (snd (clone exampleHost slashHeap 0)) 2 = ''https://api.example.com''"
  by (simp add: slashHeap_def clone_def RequestBuilder_new_def validateUrl_def exampleHost_def
      allocRecord_def emptyHeap_def endsWith_def getBaseUrl_def headersOf_def Let_def)

subsection \<open>Query parameters\<close>

lemma keep_eq: "(v \<noteq> Null \<and> v \<noteq> Undefined \<and> v \<noteq> Value []) = spec_keep v"
  by (cases v) (simp_all add: spec_keep_def)

lemma filter_keep:
  "filter (\<lambda>(k, v). v \<noteq> Null \<and> v \<noteq> Undefined \<and> v \<noteq> Value []) xs
     = filter (\<lambda>p. spec_keep (snd p)) xs"
  by (rule filter_cong) (auto simp add: keep_eq)

lemma map_pair:
  "(\<lambda>(k, v). encodeURIComponent k @ CHR ''='' # encodeURIComponent (toString v)) = spec_pair"
  by (auto simp add: spec_pair_def fun_eq_iff)

lemma buildUrl_spec:
  "buildUrl h this e (Some qp) = spec_queryUrl (spec_path (getBaseUrl h this) e) (entries qp)"
proof -
  have "length (Object_keys qp) = 0 \<Longrightarrow> entries qp = []"
    by (simp add: Object_keys_def)
  then show ?thesis
    unfolding buildUrl_def Let_def
    by (auto simp add: normalized_path filter_keep map_pair spec_queryUrl_def)
qed

text \<open>A percent-encoded component holds unreserved characters and escapes only.\<close>

lemma hexChar_in: "n < 16 \<Longrightarrow> hexChar n \<in> escapeChars"
  unfolding hexChar_def escapeChars_def by (rule insertI2, rule nth_mem) simp

lemma percentByte_chars: "n < 256 \<Longrightarrow> set (percentByte n) \<subseteq> escapeChars"
proof -
  assume n: "n < 256"
  then have "n div 16 < 16" by simp
  moreover have "n mod 16 < 16" by simp
  ultimately show ?thesis
    using hexChar_in[of "n div 16"] hexChar_in[of "n mod 16"]
    by (simp add: percentByte_def escapeChars_def)
qed

lemma of_char_bound: "(of_char c :: nat) < 256"
proof -
  have "(of_char c :: nat) mod 256 < 256" by simp
  then show ?thesis by (simp only: of_char_mod_256)
qed

lemma encodeUnit_chars: "x \<in> set (encodeUnit c) \<Longrightarrow> isUnreserved x \<or> x \<in> escapeChars"
proof -
  assume x: "x \<in> set (encodeUnit c)"
  let ?n = "of_char c :: nat"
  have b: "?n < 256" by (rule of_char_bound)
  then have b1: "192 + ?n div 64 < 256" by arith
  have b2: "128 + ?n mod 64 < 256" by arith
  show ?thesis
    using x percentByte_chars[OF b] percentByte_chars[OF b1] percentByte_chars[OF b2]
    by (auto simp add: encodeUnit_def Let_def split: if_splits)
qed

lemma encodeURIComponent_chars:
  "x \<in> set (encodeURIComponent s) \<Longrightarrow> isUnreserved x \<or> x \<in> escapeChars"
  by (auto simp add: encodeURIComponent_def dest: encodeUnit_chars)

lemma question_not_encoded: "CHR ''?'' \<notin> set (encodeURIComponent s)"
  using encodeURIComponent_chars[of "CHR ''?''" s]
  by (auto simp add: isUnreserved_def escapeChars_def)

lemma question_not_in_pair: "CHR ''?'' \<notin> set (spec_pair p)"
  by (simp add: spec_pair_def question_not_encoded)

lemma question_not_in_join: "CHR ''?'' \<notin> set (join ''&'' (map spec_pair ps))"
  by (induction ps rule: induct_list012) (simp_all add: question_not_in_pair)

text \<open>
  C6.  The claim is that the pairs kept are written in the insertion order of the query
  mapping.  \<open>buildUrl\<close> goes through \<open>Object.entries\<close>, which lists the array-index keys
  first, in ascending numeric order: for the mapping \<open>{b: "1", 2: "x"}\<close> the query is
  \<open>2=x&b=1\<close>, not \<open>b=1&2=x\<close>.
\<close>

theorem buildUrl_query_order_counterexample:
  "buildUrl exampleHeap 0 ''/posts'' (Some [(''b'', Value ''1''), (''2'', Value ''x'')])
      = ''https://api.example.com/posts?2=x&b=1''
   \<and> spec_queryUrl (spec_path (getBaseUrl exampleHeap 0) ''/posts'')
        [(''b'', Value ''1''), (''2'', Value ''x'')]
      = ''https://api.example.com/posts?b=1&2=x''
   \<and> buildUrl exampleHeap 0 ''/posts'' (Some [(''b'', Value ''1''), (''2'', Value ''x'')])
      \<noteq> spec_queryUrl (spec_path (getBaseUrl exampleHeap 0) ''/posts'')
          [(''b'', Value ''1''), (''2'', Value ''x'')]"
  by (simp add: buildUrl_spec spec_queryUrl_def spec_path_def getBaseUrl_def exampleHeap_builder
      entries_def isArrayIndex_def isDigit_def indexValue_def spec_keep_def spec_pair_def
      encodeURIComponent_def encodeUnit_def isUnreserved_def)

text \<open>
  C6, amended.  For every endpoint and query mapping, \<open>buildUrl\<close> drops the parameters
  whose value is null, absent or the empty string; if none is left it returns the path;
  otherwise it returns the path, a \<open>?\<close>, and the pairs left, percent-encoded and joined with
  \<open>&\<close>, in the enumeration order of the mapping: the array-index keys first in ascending
  numeric order, then the other keys in insertion order.  When no key is an array index this
  is the insertion order.  No \<open>?\<close> occurs in the encoded pairs.
\<close>

theorem buildUrl_query:
  "buildUrl h this e (Some qp) = spec_queryUrl (spec_path (getBaseUrl h this) e) (entries qp)
   \<and> entries qp = sort_key (\<lambda>p. indexValue (fst p)) (filter (\<lambda>p. isArrayIndex (fst p)) qp)
                     @ filter (\<lambda>p. \<not> isArrayIndex (fst p)) qp
   \<and> (list_all (\<lambda>p. \<not> isArrayIndex (fst p)) qp \<longrightarrow>
        buildUrl h this e (Some qp) = spec_queryUrl (spec_path (getBaseUrl h this) e) qp)
   \<and> CHR ''?'' \<notin> set (join ''&'' (map spec_pair (filter (\<lambda>p. spec_keep (snd p)) (entries qp))))"
proof (intro conjI impI)
  show "buildUrl h this e (Some qp)
      = spec_queryUrl (spec_path (getBaseUrl h this) e) (entries qp)"
    by (rule buildUrl_spec)
  show "entries qp = sort_key (\<lambda>p. indexValue (fst p)) (filter (\<lambda>p. isArrayIndex (fst p)) qp)
                     @ filter (\<lambda>p. \<not> isArrayIndex (fst p)) qp"
    by (simp add: entries_def)
  show "buildUrl h this e (Some qp) = spec_queryUrl (spec_path (getBaseUrl h this) e) qp"
    if "list_all (\<lambda>p. \<not> isArrayIndex (fst p)) qp"
    using that buildUrl_spec[of h this e qp] entries_no_index[of qp] by simp
  show "CHR ''?'' \<notin> set (join ''&'' (map spec_pair (filter (\<lambda>p. spec_keep (snd p)) (entries qp))))"
    by (rule question_not_in_join)
qed

theorem buildUrl_query_witness:
  "list_all (\<lambda>p. \<not> isArrayIndex (fst p))
       [(''userId'', Value ''1''), (''skip'', Null), (''limit'', Value ''10'')]
   \<and> buildUrl exampleHeap 0 ''/posts''
        (Some [(''userId'', Value ''1''), (''skip'', Null), (''limit'', Value ''10'')])
      = ''https://api.example.com/posts?userId=1&limit=10''"
proof -
  have n: "list_all (\<lambda>p. \<not> isArrayIndex (fst p))
       [(''userId'', Value ''1''), (''skip'', Null), (''limit'', Value ''10'')]"
    by (simp add: isArrayIndex_def isDigit_def)
  have "spec_queryUrl (spec_path (getBaseUrl exampleHeap 0) ''/posts'')
          [(''userId'', Value ''1''), (''skip'', Null), (''limit'', Value ''10'')]
        = ''https://api.example.com/posts?userId=1&limit=10''"
    by (simp add: spec_queryUrl_def spec_path_def getBaseUrl_def exampleHeap_builder
      spec_keep_def spec_pair_def encodeURIComponent_def encodeUnit_def isUnreserved_def)
  moreover have "buildUrl exampleHeap 0 ''/posts''
        (Some [(''userId'', Value ''1''), (''skip'', Null), (''limit'', Value ''10'')])
      = spec_queryUrl (spec_path (getBaseUrl exampleHeap 0) ''/posts'')
          [(''userId'', Value ''1''), (''skip'', Null), (''limit'', Value ''10'')]"
    using n buildUrl_query[of exampleHeap 0 "''/posts''"
        "[(''userId'', Value ''1''), (''skip'', Null), (''limit'', Value ''10'')]"]
    by blast
  ultimately show ?thesis using n by simp
qed

subsection \<open>Default headers\<close>

text \<open>
  C7.  After a construction that succeeds the header mapping of the new builder is the
  two default headers, \<open>Content-Type\<close> and \<open>Accept\<close>, both \<open>application/json\<close>.
  \<open>clearHeaders\<close> returns the builder and leaves its header mapping, and what
  \<open>getHeaders\<close> returns, equal to exactly these two entries, whatever the mapping held.
\<close>

theorem default_headers:
  "(fst (RequestBuilder_new hst h b) = Inr this \<longrightarrow>
       headersOf (snd (RequestBuilder_new hst h b)) this = defaultHeaders)
   \<and> fst (clearHeaders g that) = that
   \<and> headersOf (snd (clearHeaders g that)) that = defaultHeaders
   \<and> getHeadersValue (snd (clearHeaders g that)) that = defaultHeaders
   \<and> defaultHeaders = [(''Content-Type'', ''application/json''), (''Accept'', ''application/json'')]"
  by (auto simp add: RequestBuilder_new_def validateUrl_def allocRecord_def Let_def headersOf_def
      clearHeaders_def getHeadersValue_def getHeaders_def spread_def entries_def defaultHeaders_def
      ContentType_JSON_def isArrayIndex_def isDigit_def split: if_splits)

theorem default_headers_witness:
  "RequestBuilder_new exampleHost emptyHeap ''https://api.example.com'' = (Inr 0, exampleHeap)
   \<and> headersOf exampleHeap 0
       = [(''Content-Type'', ''application/json''), (''Accept'', ''application/json'')]
   \<and> headersOf (snd (clearHeaders (snd (setHeader exampleHeap 0 ''X-Custom'' (Value ''value''))) 0)) 0
       = [(''Content-Type'', ''application/json''), (''Accept'', ''application/json'')]"
  using exampleHeap_new
    default_headers[of exampleHost emptyHeap "''https://api.example.com''" 0
       "snd (setHeader exampleHeap 0 ''X-Custom'' (Value ''value''))" 0]
  by simp


subsection \<open>Payload\<close>

text \<open>
  \<open>buildPayload\<close> returns the text of \<open>JSON.stringify\<close> unchanged, and
  \<open>parseJsonSafely\<close> returns the value of \<open>JSON.parse\<close> unchanged, or \<open>null\<close> when it
  throws: the two undo each other when \<open>JSON.stringify\<close> and \<open>JSON.parse\<close> do.
\<close>

lemma payload_roundtrip_is_the_hosts:
  "stringify x = Inr (Value s) \<Longrightarrow>
     buildPayload stringify x = Inr (Value s)
     \<and> parseJsonSafely parse (Value s)
         = (case parse s of Inr y \<Rightarrow> y | Inl e \<Rightarrow> JNull)"
  by (simp add: buildPayload_def parseJsonSafely_def)






















































text \<open>The example number text meets the contract on every integral number.\<close>

lemma digitChar_in: "d < 10 \<Longrightarrow> digitChar d \<in> set ''0123456789''"
  unfolding digitChar_def by (rule nth_mem) simp

lemma digits_chars: "set (digits n) \<subseteq> set ''0123456789''"
proof (induction n rule: digits.induct)
  case (1 n)
  show ?case
  proof (cases "n < 10")
    case True
    then show ?thesis using digitChar_in[of n] by (subst digits.simps) simp
  next
    case False
    have "n mod 10 < 10" by simp
    from digitChar_in[OF this] 1[OF False] False
    show ?thesis by (subst digits.simps) simp
  qed
qed

lemma digit_isDigit: "c \<in> set ''0123456789'' \<Longrightarrow> isDigit c \<and> isNumberChar c \<and> c \<noteq> CHR ''-''"
  by (auto simp add: isDigit_def isNumberChar_def)

lemma digits_nonempty: "digits n \<noteq> []"
  by (subst digits.simps) simp

lemma digitChar_value: "d < 10 \<Longrightarrow> (of_char (digitChar d) :: int) = 48 + int d"
proof -
  assume "d < 10"
  then have "d \<in> set [0 ..< 10]" by simp
  then show ?thesis
    by (simp add: upt_rec digitChar_def) (elim disjE; simp)
qed

lemma indexValue_snoc: "indexValue (s @ [c]) = 10 * indexValue s + (of_char c - 48)"
  by (simp add: indexValue_def)

lemma indexValue_digits: "indexValue (digits n) = int n"
proof (induction n rule: digits.induct)
  case (1 n)
  show ?case
  proof (cases "n < 10")
    case True
    then show ?thesis
      using digitChar_value[of n] by (subst digits.simps) (simp add: indexValue_def)
  next
    case False
    have d: "digits n = digits (n div 10) @ [digitChar (n mod 10)]"
      using False by (subst digits.simps) simp
    have "n mod 10 < 10" by simp
    from digitChar_value[OF this]
    have "indexValue (digits n) = 10 * int (n div 10) + int (n mod 10)"
      unfolding d indexValue_snoc 1[OF False] by simp
    also have "\<dots> = int n" by presburger
    finally show ?thesis .
  qed
qed

lemma digits_leading_zero: "hd (digits n) = CHR ''0'' \<Longrightarrow> n = 0"
proof (induction n rule: digits.induct)
  case (1 n)
  show ?case
  proof (cases "n < 10")
    case True
    have "digits n = [digitChar n]" using True by (subst digits.simps) simp
    with "1.prems" have "digitChar n = CHR ''0''" by simp
    with digitChar_value[OF True] show ?thesis by simp
  next
    case False
    have "digits n = digits (n div 10) @ [digitChar (n mod 10)]"
      using False by (subst digits.simps) simp
    with "1.prems" digits_nonempty[of "n div 10"]
    have "hd (digits (n div 10)) = CHR ''0''" by simp
    from 1(1)[OF False this] False show ?thesis by simp
  qed
qed

lemma digits_number:
  "takeWhile isNumberChar (digits n) = digits n"
  "takeWhile isDigit (digits n) = digits n"
  "dropWhile isDigit (digits n) = []"
  "Ball (set (digits n)) isNumberChar"
  "dropWhile isNumberChar (digits n) = []"
  using digits_chars[of n] digit_isDigit by (simp_all add: subset_iff del: digits.simps)

lemma digits_isJsonNumber: "isJsonNumber (digits n)" "isJsonNumber (CHR ''-'' # digits n)"
proof -
  obtain c r where cr: "digits n = c # r" using digits_nonempty[of n] by (cases "digits n") auto
  have c: "c \<noteq> CHR ''-''" using digits_chars[of n] digit_isDigit[of c] cr by simp
  have z: "digits n = ''0'' \<or> hd (digits n) \<noteq> CHR ''0''"
  proof (cases "hd (digits n) = CHR ''0''")
    case True
    from digits_leading_zero[OF this] have "digits n = ''0''"
      by (simp add: digitChar_def)
    then show ?thesis by simp
  qed simp
  have b: "(case digits n of [] \<Rightarrow> [] | c # r \<Rightarrow> if c = CHR ''-'' then r else digits n) = digits n"
    using cr c by simp
  show "isJsonNumber (digits n)"
    unfolding isJsonNumber_def b Let_def digits_number
    using z digits_nonempty[of n] by (simp add: fractionOk_def del: digits.simps)
  show "isJsonNumber (CHR ''-'' # digits n)"
    unfolding isJsonNumber_def Let_def
    using z digits_nonempty[of n] by (simp add: fractionOk_def digits_number del: digits.simps)
qed

lemma integerText_numberOk: "numberOk integerText (of_int i)"
proof (cases "i < 0")
  case True
  have n: "isNumberChar (CHR ''-'')" by (simp add: isNumberChar_def)
  have "lexNumber (CHR ''-'' # digits (nat (- i))) = Some (CHR ''-'' # digits (nat (- i)), [])"
    using n by (simp add: lexNumber_def Let_def digits_number digits_isJsonNumber del: digits.simps)
  moreover have "(of_int (indexValue (digits (nat (- i)))) :: real) = - of_int i"
    using True by (simp add: indexValue_digits del: digits.simps)
  ultimately show ?thesis
    using True by (simp add: numberOk_def integerText_def show_int_def del: digits.simps)
next
  case False
  obtain c r where cr: "digits (nat i) = c # r"
    using digits_nonempty[of "nat i"] by (cases "digits (nat i)") auto
  have c: "c \<noteq> CHR ''-''" using digits_chars[of "nat i"] digit_isDigit[of c] cr by simp
  have "lexNumber (digits (nat i)) = Some (digits (nat i), [])"
    by (simp add: lexNumber_def Let_def digits_number digits_isJsonNumber del: digits.simps)
  moreover have "(of_int (indexValue (digits (nat i))) :: real) = of_int i"
    using False by (simp add: indexValue_digits del: digits.simps)
  moreover have "StringToNumber integerText (digits (nat i)) = Finite (of_int (indexValue (digits (nat i))))"
    unfolding cr[symmetric] integerText_def using cr c by (simp del: digits.simps)
  ultimately show ?thesis
    using False by (simp add: numberOk_def integerText_def show_int_def del: digits.simps)
qed

lemma integerText_numbersOk:
  assumes "list_all (\<lambda>r. r \<in> \<int>) (numbersOf x)"
  shows "numbersOk integerText x"
  unfolding numbersOk_def list_all_iff
proof
  fix r assume "r \<in> set (numbersOf x)"
  with assms have "r \<in> \<int>" by (simp add: list_all_iff)
  then obtain i where "r = of_int i" by (rule Ints_cases)
  then show "numberOk integerText r" by (simp only: integerText_numberOk)
qed



text \<open>
  Outside the JSON-serializable values the round trip changes the value: \<open>NaN\<close> comes back
  as \<open>null\<close>, a property that holds \<open>undefined\<close> is gone, and \<open>undefined\<close> itself has no
  text, so that \<open>parseJsonSafely\<close> answers \<open>null\<close>.
\<close>

lemma payload_not_a_number:
  "buildPayload (JSON_stringify nt) (JObj [(''a'', JNum NaN)])
     = Inr (Value (''{'' @ QuoteJSONString ''a'' @ '':null}''))
   \<and> parseJsonSafely (JSON_parse nt) (Value (''{'' @ QuoteJSONString ''a'' @ '':null}''))
     = JObj [(''a'', JNull)]
   \<and> \<not> deepEqual (JObj [(''a'', JNull)]) (JObj [(''a'', JNum NaN)])"
  by (simp add: buildPayload_def JSON_stringify_def entries_def isArrayIndex_def isDigit_def
      parseJsonSafely_def JSON_parse_def QuoteJSONString_def escapeUnit_def
      doubleQuote_def backslash_def skipWhitespace_def isJsonWhitespace_def createProperties_def)

lemma payload_undefined_property:
  "buildPayload (JSON_stringify nt) (JObj [(''a'', JUndefined)]) = Inr (Value ''{}'')
   \<and> parseJsonSafely (JSON_parse nt) (Value ''{}'') = JObj []
   \<and> \<not> deepEqual (JObj []) (JObj [(''a'', JUndefined)])"
  by (simp add: buildPayload_def JSON_stringify_def entries_def isArrayIndex_def isDigit_def
      parseJsonSafely_def JSON_parse_def
      skipWhitespace_def isJsonWhitespace_def)

lemma payload_undefined:
  "buildPayload (JSON_stringify nt) JUndefined = Inr Undefined
   \<and> parseJsonSafely (JSON_parse nt) Undefined = JNull"
  by (simp add: buildPayload_def JSON_stringify_def parseJsonSafely_def JSON_parse_def
      skipWhitespace_def isJsonWhitespace_def doubleQuote_def lexNumber_def isNumberChar_def
      isJsonNumber_def)


section \<open>The unit tests of the repository on the model\<close>

text \<open>
  The examples of the test suites, evaluated.  The constructor on a string that is not a
  URL throws, but the error is the \<open>TypeError\<close> of the logger call in \<open>validateUrl\<close>.
\<close>

lemma test_buildUrl_trailing_slash:
  "buildUrl (snd (RequestBuilder_new exampleHost emptyHeap ''https://api.example.com/'')) 0
     ''/users'' None = ''https://api.example.com/users''"
  by (simp add: RequestBuilder_new_def validateUrl_def exampleHost_def allocRecord_def Let_def
      emptyHeap_def endsWith_def buildUrl_def startsWith_def)

lemma test_buildUrl_no_leading_slash:
  "buildUrl exampleHeap 0 ''users'' None = ''https://api.example.com/users''"
  by (simp add: exampleHeap_builder buildUrl_def startsWith_def)

lemma test_buildUrl_empty_params:
  "buildUrl exampleHeap 0 ''/posts'' (Some []) = ''https://api.example.com/posts''"
  by (simp add: exampleHeap_builder buildUrl_def startsWith_def Object_keys_def entries_def)

lemma test_invalid_url:
  "fst (RequestBuilder_new exampleHost emptyHeap ''invalid-url'') = Inl TypeError"
  by (simp add: RequestBuilder_new_def validateUrl_def exampleHost_def)

lemma test_setBearerToken:
  "map_of (getHeadersValue (snd (setBearerToken exampleHeap 0 ''my-token'')) 0) ''Authorization''
     = Some ''Bearer my-token''"
  by (simp add: setBearerToken_def setHeader_def trim_def isWhiteSpace_def set_prop_def
      headersOf_def exampleHeap_builder getHeadersValue_def getHeaders_def allocRecord_def
      spread_def entries_def defaultHeaders_def isArrayIndex_def isDigit_def)

lemma test_setBasicAuth:
  "map_of (getHeadersValue (snd (setBasicAuth exampleHeap 0 ''user'' ''pass'')) 0) ''Authorization''
     = Some ''Basic dXNlcjpwYXNz''"
  by (simp add: setBasicAuth_def btoa_def base64Char_def setHeader_def trim_def isWhiteSpace_def
      set_prop_def headersOf_def exampleHeap_builder getHeadersValue_def getHeaders_def
      allocRecord_def spread_def entries_def defaultHeaders_def isArrayIndex_def isDigit_def)

lemma test_removeHeader:
  "map_of (getHeadersValue
      (snd (removeHeader (snd (setHeader exampleHeap 0 ''X-Remove-Me'' (Value ''value''))) 0
              ''X-Remove-Me'')) 0) ''X-Remove-Me'' = None"
  by (simp add: removeHeader_def delete_prop_def setHeader_def trim_def isWhiteSpace_def
      set_prop_def headersOf_def exampleHeap_builder getHeadersValue_def getHeaders_def
      allocRecord_def spread_def entries_def defaultHeaders_def isArrayIndex_def isDigit_def)

lemma test_hasRequiredFields:
  "hasRequiredFields exampleHost (JObj [(''id'', JNum (Finite 1)), (''title'', JStr ''Test'')])
      [''id'', ''title'', ''userId''] = Inr \<lparr>valid = False, missing = [''userId'']\<rparr>"
  by (simp add: hasRequiredFields_def js_in_def exampleHost_def)

lemma test_validateRequiredFields:
  "validateRequiredFields exampleHost (JObj [(''id'', JNum (Finite 1)), (''name'', JNull)])
      [''id'', ''name'', ''email'']
    = Inr \<lparr>valid = False, message = ''Required field is missing'',
           details = FieldLists [''email''] [''name'']\<rparr>"
  by (simp add: validateRequiredFields_def js_in_def exampleHost_def MISSING_REQUIRED_FIELD_def)

lemma test_hasExpectedType:
  "hasExpectedType exampleHost (JObj [(''id'', JNum (Finite 1)), (''tags'', JArr [])]) ''id'' ''number''
     = Inr True
   \<and> hasExpectedType exampleHost (JObj [(''id'', JStr ''1'')]) ''id'' ''number'' = Inr False
   \<and> hasExpectedType exampleHost (JObj [(''name'', JStr ''John'')]) ''id'' ''number'' = Inr False
   \<and> hasExpectedType exampleHost (JObj [(''id'', JNum (Finite 1)), (''tags'', JArr [])]) ''tags'' ''array''
     = Inr True"
  by (simp add: hasExpectedType_def js_in_def exampleHost_def valueType_def)

lemma test_validateSchema:
  "validateSchema exampleHost (JObj [(''id'', JStr ''1''), (''name'', JStr ''John'')])
      [(''id'', ''number''), (''name'', ''string'')]
    = Inr \<lparr>valid = False, message = ''Schema validation failed'',
           details = Errors [''Field '' @ [CHR 0x27] @ ''id'' @ [CHR 0x27] @ '' validation failed'']\<rparr>"
  by (simp add: validateSchema_def entries_def isArrayIndex_def isDigit_def hasExpectedType_def
      js_in_def exampleHost_def valueType_def)

lemma test_validateResponse:
  "validateResponse exampleHost 200 (JObj [(''id'', JNum (Finite 1)), (''name'', JStr ''John'')])
      (Some [''id'', ''name'']) (Some (Finite 200))
    = Inr \<lparr>valid = True, message = ''Response validation passed'', details = Errors []\<rparr>"
  by (simp add: validateResponse_def requiredFieldErrors_def hasRequiredFields_def js_in_def
      isSuccessful_def SUCCESS_MIN_def SUCCESS_MAX_def hasResponseBody_def Object_keys_def
      entries_def isArrayIndex_def isDigit_def exampleHost_def)

lemma test_hasMinLength:
  "hasMinLength (JArr [JNum (Finite 1), JNum (Finite 2), JNum (Finite 3)]) (Finite 2)
   \<and> \<not> hasMinLength (JArr [JNum (Finite 1)]) (Finite 2)
   \<and> \<not> hasMinLength (JStr ''abc'') (Finite 2)"
  by (simp add: hasMinLength_def num_le_def)

lemma test_status_ranges:
  "isSuccessful 200 \<and> isSuccessful 204 \<and> \<not> isSuccessful 400 \<and> isClientError 404
   \<and> \<not> isClientError 200 \<and> isServerError 502 \<and> \<not> isServerError 200"
  by (simp add: isSuccessful_def isClientError_def isServerError_def SUCCESS_MIN_def
      SUCCESS_MAX_def CLIENT_ERROR_MIN_def CLIENT_ERROR_MAX_def SERVER_ERROR_MIN_def
      SERVER_ERROR_MAX_def)

lemma test_buildPayload:
  "buildPayload (JSON_stringify integerText) (JObj [(''title'', JStr ''Test''), (''userId'', JNum (Finite 1))])
     = Inr (Value (''{'' @ QuoteJSONString ''title'' @ '':'' @ QuoteJSONString ''Test'' @ '',''
                     @ QuoteJSONString ''userId'' @ '':1}''))"
  by (simp add: buildPayload_def JSON_stringify_def entries_def isArrayIndex_def isDigit_def
      integerText_def show_int_def digitChar_def)

lemma test_parseJsonSafely_invalid:
  "parseJsonSafely (JSON_parse nt) (Value ''{invalid}'') = JNull"
  by (simp add: parseJsonSafely_def JSON_parse_def skipWhitespace_def isJsonWhitespace_def
      doubleQuote_def)

end
